theory Spec2Isabelle
  imports Main "HOL-Library.Char_ord" "HOL-Library.List_Lexorder"
begin

chapter \<open>The model of SenzingGo.py\<close>

section \<open>Process outcomes\<close>

text \<open>
  SenzingGo.py is a script: a function either returns, or ends the process with
  \<^verbatim>\<open>sys.exit(code)\<close> after printing a diagnostic, or lets a Python exception escape
  (the interpreter then prints a traceback and ends with status 1).  The three outcomes
  are kept apart: \<open>Inr v\<close> is a normal return, \<open>Inl (Exit code lines)\<close> is
  \<^verbatim>\<open>sys.exit(code)\<close> together with the lines printed by the failing branch, and
  \<open>Inl (Uncaught e)\<close> is an exception no handler of the script catches.
\<close>

datatype py_exception =
    KeyError | IndexError | ValueError | UnboundLocalError
  | TypeError | FileNotFoundError | IsADirectoryError | ImageNotFound | ImageLoadError
  | NotADirectoryError | ReadError | JSONDecodeError | UnicodeDecodeError | OSError

datatype failure = Exit int "string list" | Uncaught py_exception

section \<open>Python string operations used by the script\<close>

text \<open>\<^verbatim>\<open>s.lstrip(c)\<close> for a single character: every leading \<open>c\<close> is dropped.\<close>

definition lstrip :: "char \<Rightarrow> string \<Rightarrow> string" where
  "lstrip c s = dropWhile (\<lambda>x. x = c) s"

text \<open>\<^verbatim>\<open>s.startswith(p)\<close>.\<close>

fun startswith :: "string \<Rightarrow> string \<Rightarrow> bool" where
  "startswith s [] = True"
| "startswith [] (p # ps) = False"
| "startswith (x # xs) (p # ps) = (x = p \<and> startswith xs ps)"

text \<open>\<^verbatim>\<open>sub in s\<close> for strings: \<open>sub\<close> occurs in \<open>s\<close> as a contiguous run.\<close>

fun substring_in :: "string \<Rightarrow> string \<Rightarrow> bool" where
  "substring_in sub [] = (sub = [])"
| "substring_in sub (x # xs) = (startswith (x # xs) sub \<or> substring_in sub xs)"

section \<open>The table of services (\<^verbatim>\<open>docker_containers\<close> of \<^verbatim>\<open>main\<close>)\<close>

datatype service_key = restapi | webapp | swagger

record service =
  imagename :: string
  latestsuffix :: string
  containername :: string
  containerport :: nat
  hostport :: nat
  imagepulled :: bool
  imageavailable :: "bool option"
  tag :: "string option"
  startedok :: "bool option"

type_synonym docker_containers = "service_key \<Rightarrow> service"

text \<open>The keys in the insertion order of the dictionary literal.\<close>

definition service_keys :: "service_key list" where
  "service_keys = [restapi, webapp, swagger]"

definition initial_docker_containers :: "string \<Rightarrow> docker_containers" where
  "initial_docker_containers senzing_proj_name = (\<lambda>k. case k of
      restapi \<Rightarrow> \<lparr>imagename = ''senzing/senzing-api-server'',
                  latestsuffix = ''SENZING_DOCKER_IMAGE_VERSION_SENZING_API_SERVER'',
                  containername = ''SzGo-API-'' @ senzing_proj_name,
                  containerport = 8250, hostport = 8250, imagepulled = False,
                  imageavailable = None, tag = None, startedok = None\<rparr>
    | webapp \<Rightarrow> \<lparr>imagename = ''senzing/entity-search-web-app'',
                  latestsuffix = ''SENZING_DOCKER_IMAGE_VERSION_ENTITY_SEARCH_WEB_APP'',
                  containername = ''SzGo-WEB-'' @ senzing_proj_name,
                  containerport = 8081, hostport = 8251, imagepulled = False,
                  imageavailable = None, tag = None, startedok = None\<rparr>
    | swagger \<Rightarrow> \<lparr>imagename = ''swaggerapi/swagger-ui'',
                  latestsuffix = ''SENZING_DOCKER_IMAGE_VERSION_SWAGGERAPI_SWAGGER_UI'',
                  containername = ''SzGo-Swagger-'' @ senzing_proj_name,
                  containerport = 8080, hostport = 9180, imagepulled = False,
                  imageavailable = None, tag = None, startedok = None\<rparr>)"

text \<open>Lines 1298-1301 of \<^verbatim>\<open>main\<close>: the container names follow the project suffix.\<close>

definition set_container_names :: "string \<Rightarrow> docker_containers \<Rightarrow> docker_containers" where
  "set_container_names senzing_proj_name dc = (\<lambda>k. case k of
      restapi \<Rightarrow> (dc restapi)\<lparr>containername := ''SzGo-API-'' @ senzing_proj_name\<rparr>
    | webapp \<Rightarrow> (dc webapp)\<lparr>containername := ''SzGo-WEB-'' @ senzing_proj_name\<rparr>
    | swagger \<Rightarrow> (dc swagger)\<lparr>containername := ''SzGo-Swagger-'' @ senzing_proj_name\<rparr>)"

section \<open>Teardown: \<^verbatim>\<open>containers_stop_remove\<close>\<close>

text \<open>
  The container engine is an external collaborator.  Its state, as far as teardown
  touches it, is the list of containers (each with the name the engine records, which
  starts with a slash, and a status) and the list of network names.  How the engine
  matches a \<^verbatim>\<open>name\<close> filter is the engine's business and is a parameter
  (\<open>name_matches filter_value recorded_name\<close>), as is whether a stop or remove call
  raises \<^verbatim>\<open>APIError\<close> (\<open>stop_ok\<close>, \<open>remove_ok\<close>) and what the user types at the
  prompt (\<open>answer\<close>).
\<close>

record container =
  attrs_Name :: string
  cont_status :: string

record engine =
  containers :: "container list"
  networks :: "string list"

definition docker_cont_list :: "(string \<Rightarrow> string \<Rightarrow> bool) \<Rightarrow> engine \<Rightarrow> string \<Rightarrow> container list" where
  "docker_cont_list name_matches e name_filter =
     filter (\<lambda>c. name_matches name_filter (attrs_Name c)) (containers e)"

text \<open>
  \<^verbatim>\<open>cont.stop()\<close> inside \<^verbatim>\<open>try ... except APIError\<close>: the error is printed and the
  loop goes on.  A stop that succeeds leaves the container \<^verbatim>\<open>exited\<close>.
\<close>

definition cont_stop :: "(string \<Rightarrow> bool) \<Rightarrow> container \<Rightarrow> engine \<Rightarrow> engine" where
  "cont_stop stop_ok cont e =
     (if stop_ok (attrs_Name cont)
      then e\<lparr>containers :=
               map (\<lambda>d. if attrs_Name d = attrs_Name cont then d\<lparr>cont_status := ''exited''\<rparr> else d)
                   (containers e)\<rparr>
      else e)"

text \<open>\<^verbatim>\<open>cont.remove(v=True, force=True)\<close> inside \<^verbatim>\<open>try ... except APIError\<close>.\<close>

definition cont_remove :: "(string \<Rightarrow> bool) \<Rightarrow> container \<Rightarrow> engine \<Rightarrow> engine" where
  "cont_remove remove_ok cont e =
     (if remove_ok (attrs_Name cont)
      then e\<lparr>containers := filter (\<lambda>d. attrs_Name d \<noteq> attrs_Name cont) (containers e)\<rparr>
      else e)"

definition project_container_names :: "docker_containers \<Rightarrow> string list" where
  "project_container_names dc = map (\<lambda>k. containername (dc k)) service_keys"

text \<open>The \<^verbatim>\<open>for cont in containers\<close> loop (lines 505-529).\<close>

fun stop_remove_loop ::
  "(string \<Rightarrow> bool) \<Rightarrow> (string \<Rightarrow> bool) \<Rightarrow> string list \<Rightarrow> bool \<Rightarrow> container list \<Rightarrow> engine \<Rightarrow> engine"
where
  "stop_remove_loop stop_ok remove_ok names do_remove [] e = e"
| "stop_remove_loop stop_ok remove_ok names do_remove (cont # conts) e =
     (let cont_name = lstrip CHR ''/'' (attrs_Name cont) in
      if cont_name \<in> set names
      then let e1 = cont_stop stop_ok cont e;
               e2 = (if do_remove then cont_remove remove_ok cont e1 else e1)
           in stop_remove_loop stop_ok remove_ok names do_remove conts e2
      else stop_remove_loop stop_ok remove_ok names do_remove conts e)"

text \<open>
  Lines 531-539: with \<^verbatim>\<open>-r\<close> or \<^verbatim>\<open>-rn\<close> the first network the engine lists for the
  project's network name is removed, any exception suppressed.
\<close>

definition network_remove :: "(string \<Rightarrow> string \<Rightarrow> bool) \<Rightarrow> string \<Rightarrow> engine \<Rightarrow> engine" where
  "network_remove net_matches docker_network e =
     (case filter (net_matches docker_network) (networks e) of
        [] \<Rightarrow> e
      | n # _ \<Rightarrow> e\<lparr>networks := remove1 n (networks e)\<rparr>)"

definition containers_stop_remove ::
  "(string \<Rightarrow> string \<Rightarrow> bool) \<Rightarrow> (string \<Rightarrow> string \<Rightarrow> bool) \<Rightarrow> (string \<Rightarrow> bool) \<Rightarrow> (string \<Rightarrow> bool) \<Rightarrow> string
     \<Rightarrow> string \<Rightarrow> engine \<Rightarrow> docker_containers \<Rightarrow> bool \<Rightarrow> bool \<Rightarrow> string \<Rightarrow> bool \<Rightarrow> bool
     \<Rightarrow> failure + engine"
where
  "containers_stop_remove name_matches net_matches stop_ok remove_ok answer
      senzing_proj_name e dc containers_remove containers_remove_no_prompt docker_network
      startup_remove forced_remove =
     (let conts = docker_cont_list name_matches e senzing_proj_name;
          names = project_container_names dc;
          running_containers = map (\<lambda>c. lstrip CHR ''/'' (attrs_Name c)) conts
      in if running_containers = [] \<and> \<not> startup_remove then Inr e
         else if containers_remove \<and> answer \<notin> set ['''', ''y'', ''Y'', ''yes'', ''YES'']
         then Inl (Exit 0 [])
         else
           let e1 = stop_remove_loop stop_ok remove_ok names
                      (containers_remove \<or> containers_remove_no_prompt \<or> startup_remove \<or> forced_remove)
                      conts e
           in Inr (if containers_remove \<or> containers_remove_no_prompt
                   then network_remove net_matches docker_network e1 else e1))"

text \<open>Containers outside the project: those teardown must leave alone.\<close>

definition foreign :: "string list \<Rightarrow> container \<Rightarrow> bool" where
  "foreign names c = (lstrip CHR ''/'' (attrs_Name c) \<notin> set names)"

section \<open>Image tags: lines 1346-1417 of \<^verbatim>\<open>main\<close>\<close>

text \<open>
  \<^verbatim>\<open>s.split(sep)\<close> with no limit: the pieces between the separators, never an empty
  list.  (The last case of the inner \<open>case\<close> cannot arise; it keeps the function total.)
\<close>

fun split_on :: "char \<Rightarrow> string \<Rightarrow> string list" where
  "split_on sep [] = [[]]"
| "split_on sep (x # xs) =
     (if x = sep then [] # split_on sep xs
      else (case split_on sep xs of p # ps \<Rightarrow> (x # p) # ps | [] \<Rightarrow> [[x]]))"

text \<open>\<^verbatim>\<open>a, b = parts\<close>: unpacking raises \<^verbatim>\<open>ValueError\<close> unless there are exactly two.\<close>

definition unpack2 :: "string list \<Rightarrow> failure + (string \<times> string)" where
  "unpack2 parts = (case parts of [a, b] \<Rightarrow> Inr (a, b) | _ \<Rightarrow> Inl (Uncaught ValueError))"

text \<open>
  An image of the engine's store, with the list the engine reports as \<^verbatim>\<open>RepoTags\<close>
  (\<^verbatim>\<open>name:tag\<close> references).  \<^verbatim>\<open>Image.tags\<close> of the Docker SDK is that list without
  the placeholder of an untagged image.
\<close>

record image =
  RepoTags :: "string list"

definition image_tags :: "image \<Rightarrow> string list" where
  "image_tags i = filter (\<lambda>t. t \<noteq> ''<none>:<none>'') (RepoTags i)"

text \<open>
  The tag arguments of the command line (\<^verbatim>\<open>-at\<close>, \<^verbatim>\<open>-wt\<close>, \<^verbatim>\<open>-st\<close>) and the flags the
  image handling reads.  An argument is \<open>None\<close> when it was not given; the script tests
  it for truth, so an empty string counts as not given.
\<close>

record tag_args =
  apiTag :: "string option"
  webAppTag :: "string option"
  swaggerTag :: "string option"
  noWebApp :: bool
  noSwagger :: bool
  forcePull :: bool

definition truthy :: "string option \<Rightarrow> bool" where
  "truthy a = (case a of None \<Rightarrow> False | Some t \<Rightarrow> t \<noteq> [])"

text \<open>
  Lines 1349-1351.  \<open>versions\<close> is the dictionary \<^verbatim>\<open>parse_versions\<close> built from the
  remote manifest, as an association list; it is empty (falsy) when the manifest could
  not be reached or read.  A manifest without the service's key raises \<^verbatim>\<open>KeyError\<close>.
\<close>

definition manifest_tag :: "(string \<times> string) list \<Rightarrow> service \<Rightarrow> failure + string" where
  "manifest_tag versions svc =
     (if versions \<noteq> []
      then (case map_of versions (latestsuffix svc) of
              None \<Rightarrow> Inl (Uncaught KeyError)
            | Some v \<Rightarrow> Inr v)
      else Inr ''latest'')"

definition set_tag :: "service_key \<Rightarrow> string \<Rightarrow> docker_containers \<Rightarrow> docker_containers" where
  "set_tag k t dc = dc(k := (dc k)\<lparr>tag := Some t\<rparr>)"

definition manifest_tags :: "(string \<times> string) list \<Rightarrow> docker_containers \<Rightarrow> failure + docker_containers" where
  "manifest_tags versions dc =
     (case manifest_tag versions (dc restapi) of
        Inl f \<Rightarrow> Inl f
      | Inr t1 \<Rightarrow>
         (case manifest_tag versions (dc webapp) of
            Inl f \<Rightarrow> Inl f
          | Inr t2 \<Rightarrow>
             (case manifest_tag versions (dc swagger) of
                Inl f \<Rightarrow> Inl f
              | Inr t3 \<Rightarrow> Inr (set_tag swagger t3 (set_tag webapp t2 (set_tag restapi t1 dc))))))"

text \<open>Lines 1353-1359: tags requested on the command line replace the manifest's.\<close>

definition override_tag :: "string option \<Rightarrow> service_key \<Rightarrow> docker_containers \<Rightarrow> docker_containers" where
  "override_tag a k dc = (if truthy a then (case a of Some t \<Rightarrow> set_tag k t dc | None \<Rightarrow> dc) else dc)"

definition override_tags :: "tag_args \<Rightarrow> docker_containers \<Rightarrow> docker_containers" where
  "override_tags args dc =
     override_tag (swaggerTag args) swagger
       (override_tag (webAppTag args) webapp
          (override_tag (apiTag args) restapi dc))"

text \<open>
  Lines 1371-1381: an image counts as available when its name is the text before the
  first colon of some tag of some image of the store.
\<close>

definition avail_images :: "image list \<Rightarrow> string list" where
  "avail_images all_images =
     concat (map (\<lambda>i. map (\<lambda>t. takeWhile (\<lambda>c. c \<noteq> CHR '':'') t) (image_tags i)) all_images)"

definition set_available :: "image list \<Rightarrow> service_key \<Rightarrow> docker_containers \<Rightarrow> docker_containers" where
  "set_available all_images k dc =
     dc(k := (dc k)\<lparr>imageavailable := Some (imagename (dc k) \<in> set (avail_images all_images))\<rparr>)"

definition mark_available :: "image list \<Rightarrow> docker_containers \<Rightarrow> docker_containers" where
  "mark_available all_images dc =
     set_available all_images swagger
       (set_available all_images webapp
          (set_available all_images restapi dc))"

text \<open>
  \<^verbatim>\<open>docker_pull\<close> (lines 352-375).  Whether the engine already has the image and whether
  a pull finds it are the engine's answers (\<open>image_exists\<close>, \<open>pull_ok\<close>).  The function
  returns \<^verbatim>\<open>'PULLED'\<close>, \<^verbatim>\<open>False\<close> or \<^verbatim>\<open>True\<close>.
\<close>

datatype pull_result = PULLED | PullFailed | AlreadyExists

definition docker_pull :: "(string \<Rightarrow> bool) \<Rightarrow> (string \<Rightarrow> bool) \<Rightarrow> string \<Rightarrow> bool \<Rightarrow> pull_result" where
  "docker_pull image_exists pull_ok img force_pull =
     (if force_pull then (if pull_ok img then PULLED else PullFailed)
      else if \<not> image_exists img then (if pull_ok img then PULLED else PullFailed)
      else AlreadyExists)"

text \<open>
  \<^verbatim>\<open>pull_default_images\<close> (lines 323-349).  A tag that is still \<^verbatim>\<open>None\<close> would make the
  string concatenation raise \<^verbatim>\<open>TypeError\<close>; \<^verbatim>\<open>main\<close> has set every tag before the call.
  Note the exit status 0 when the REST API image cannot be pulled.
\<close>

fun pull_default_images ::
  "(string \<Rightarrow> bool) \<Rightarrow> (string \<Rightarrow> bool) \<Rightarrow> bool \<Rightarrow> bool \<Rightarrow> bool \<Rightarrow> service_key list
     \<Rightarrow> docker_containers \<Rightarrow> failure + docker_containers"
where
  "pull_default_images image_exists pull_ok no_web_app no_swagger force_pull [] dc = Inr dc"
| "pull_default_images image_exists pull_ok no_web_app no_swagger force_pull (key # keys) dc =
     (let image_list = dc key in
      if no_web_app \<and> imagename image_list = ''senzing/entity-search-web-app''
      then pull_default_images image_exists pull_ok no_web_app no_swagger force_pull keys dc
      else if no_swagger \<and> imagename image_list = ''swaggerapi/swagger-ui''
      then pull_default_images image_exists pull_ok no_web_app no_swagger force_pull keys dc
      else (case tag image_list of
              None \<Rightarrow> Inl (Uncaught TypeError)
            | Some t \<Rightarrow>
                let did_pull = docker_pull image_exists pull_ok (imagename image_list @ '':'' @ t) force_pull
                in if did_pull = PullFailed \<and> key = restapi
                   then Inl (Exit 0 [''ERROR: Couldn't pull REST API Server image, can't continue without it!''])
                   else
                     let dc1 = (if did_pull = PULLED then dc(key := (dc key)\<lparr>imagepulled := True\<rparr>) else dc)
                     in pull_default_images image_exists pull_ok no_web_app no_swagger force_pull keys
                          (dc1(key := (dc1 key)\<lparr>imageavailable := Some True\<rparr>))))"

text \<open>
  Lines 1405-1415 for one service: \<open>images\<close> is what the engine lists for the service's
  image name.  Of every image only the first entry of \<^verbatim>\<open>RepoTags\<close> is read; when more
  than one image is listed, a reference that contains the text \<^verbatim>\<open>latest\<close> is skipped.
\<close>

fun images_to_sort :: "nat \<Rightarrow> image list \<Rightarrow> failure + string list" where
  "images_to_sort n [] = Inr []"
| "images_to_sort n (img # imgs) =
     (case RepoTags img of
        [] \<Rightarrow> Inl (Uncaught IndexError)
      | r # _ \<Rightarrow>
          if n > 1 \<and> substring_in ''latest'' r then images_to_sort n imgs
          else (case images_to_sort n imgs of Inl f \<Rightarrow> Inl f | Inr rs \<Rightarrow> Inr (r # rs)))"

text \<open>\<^verbatim>\<open>xs.sort(reverse=True)\<close> on strings: descending by code points.\<close>

definition sort_reverse :: "string list \<Rightarrow> string list" where
  "sort_reverse xs = rev (sort xs)"

definition newest_local_tag :: "image list \<Rightarrow> failure + string" where
  "newest_local_tag images =
     (case images_to_sort (length images) images of
        Inl f \<Rightarrow> Inl f
      | Inr refs \<Rightarrow>
          (case sort_reverse refs of
             [] \<Rightarrow> Inl (Uncaught IndexError)
           | r # _ \<Rightarrow>
               (case unpack2 (split_on CHR '':'' r) of
                  Inl f \<Rightarrow> Inl f
                | Inr (_, t) \<Rightarrow> Inr t)))"

text \<open>The loop over the services (lines 1402-1417); \<open>images_list\<close> is the engine's
  \<^verbatim>\<open>images.list(name=...)\<close>.\<close>

fun local_tags :: "(string \<Rightarrow> image list) \<Rightarrow> service_key list \<Rightarrow> docker_containers \<Rightarrow> failure + docker_containers" where
  "local_tags images_list [] dc = Inr dc"
| "local_tags images_list (k # ks) dc =
     (if imageavailable (dc k) = Some True
      then (case newest_local_tag (images_list (imagename (dc k))) of
              Inl f \<Rightarrow> Inl f
            | Inr t \<Rightarrow> local_tags images_list ks (set_tag k t dc))
      else local_tags images_list ks dc)"

text \<open>
  Lines 1346-1417 in deployment mode, in the order of the script: manifest tags,
  command-line overrides, availability, and then either the pulls (Docker Hub
  reachable) or the local fallback (Docker Hub not reachable).
\<close>

definition resolve_tags ::
  "(string \<times> string) list \<Rightarrow> bool \<Rightarrow> image list \<Rightarrow> (string \<Rightarrow> image list) \<Rightarrow> (string \<Rightarrow> bool) \<Rightarrow> (string \<Rightarrow> bool)
     \<Rightarrow> tag_args \<Rightarrow> docker_containers \<Rightarrow> failure + docker_containers"
where
  "resolve_tags versions access_dockerhub all_images images_list image_exists pull_ok args dc =
     (case manifest_tags versions dc of
        Inl f \<Rightarrow> Inl f
      | Inr dc1 \<Rightarrow>
          let dc2 = override_tags args dc1;
              dc3 = mark_available all_images dc2
          in if access_dockerhub
             then pull_default_images image_exists pull_ok (noWebApp args) (noSwagger args) (forcePull args)
                    service_keys dc3
             else if imageavailable (dc3 restapi) \<noteq> Some True
             then Inl (Exit 1 [''ERROR: Can't continue, can't access Docker Hub and no existing image for the REST API server is available''])
             else local_tags images_list service_keys dc3)"


definition chosen_tags :: "failure + docker_containers \<Rightarrow> failure + string option list" where
  "chosen_tags r = (case r of Inl f \<Rightarrow> Inl f | Inr dc \<Rightarrow> Inr (map (\<lambda>k. tag (dc k)) service_keys))"


section \<open>Starting a container: \<^verbatim>\<open>docker_run\<close>\<close>

text \<open>
  What the engine answers to one \<^verbatim>\<open>containers.get(name)\<close>: the container's status and,
  when the image declares a health check, the health status (\<^verbatim>\<open>State.Health.Status\<close>).
  The engine's answers over time are a parameter \<open>obs\<close>: \<open>obs t\<close> is the answer to the
  \<open>t\<close>-th call of \<^verbatim>\<open>containers.get\<close> after the container was started.
\<close>

record cont_view =
  view_status :: string
  view_health :: "string option"

text \<open>
  The \<^verbatim>\<open>for r in range(loop_cnt)\<close> loop of \<^verbatim>\<open>status_wait\<close> (lines 405-417).  Each round
  asks the engine twice (status, then attributes).  The result is \<open>Some check\<close> when the
  loop returned early, \<open>None\<close> when it ran out, with the number of calls made so far.
  Reading the health of a container that reports none raises \<^verbatim>\<open>KeyError\<close>.
\<close>

fun status_wait_loop :: "(nat \<Rightarrow> cont_view) \<Rightarrow> string \<Rightarrow> nat \<Rightarrow> nat \<Rightarrow> failure + (string option \<times> nat)" where
  "status_wait_loop obs check 0 t = Inr (None, t)"
| "status_wait_loop obs check (Suc r) t =
     (let cont_status = view_status (obs t);
          cont_attrs = obs (Suc t)
      in if check = ''running'' \<and> cont_status = ''running'' then Inr (Some check, t + 2)
         else if check = ''healthy''
         then (case view_health cont_attrs of
                 None \<Rightarrow> Inl (Uncaught KeyError)
               | Some h \<Rightarrow>
                   if h = ''healthy'' then Inr (Some check, t + 2)
                   else status_wait_loop obs check r (t + 2))
         else status_wait_loop obs check r (t + 2))"

text \<open>\<^verbatim>\<open>status_wait\<close> (lines 400-423): after the loop the status is read once more.\<close>

definition status_wait :: "(nat \<Rightarrow> cont_view) \<Rightarrow> string \<Rightarrow> nat \<Rightarrow> nat \<Rightarrow> failure + (string \<times> nat)" where
  "status_wait obs check loop_cnt t =
     (case status_wait_loop obs check loop_cnt t of
        Inl f \<Rightarrow> Inl f
      | Inr (Some r, t') \<Rightarrow> Inr (r, t')
      | Inr (None, t') \<Rightarrow>
          (let cont_status = view_status (obs t');
               cont_attrs = obs (Suc t')
           in if check = ''running'' then Inr (cont_status, t' + 2)
              else (case view_health cont_attrs of
                      None \<Rightarrow> Inl (Uncaught KeyError)
                    | Some h \<Rightarrow> Inr (h, t' + 2))))"

definition unhealthy_warning :: "string \<Rightarrow> string" where
  "unhealthy_warning name =
     ''WARNING: Container isn't healthy yet or failed, monitor with the command ''
       @ [CHR 0x22] @ ''docker logs '' @ name @ [CHR 0x22]"

text \<open>
  \<^verbatim>\<open>docker_logs\<close> (lines 425-431) prints a banner, \<^verbatim>\<open>cont.logs().decode()\<close> and a closing
  banner.  The container object is always true, so the \<^verbatim>\<open>if cont\<close> never skips.  The log
  of the container is the parameter \<open>logs\<close>: \<open>Some text\<close> when its bytes decode as UTF-8,
  \<open>None\<close> when \<^verbatim>\<open>decode\<close> raises \<^verbatim>\<open>UnicodeDecodeError\<close>, which nothing catches.
\<close>

definition docker_logs :: "string option \<Rightarrow> failure + string list" where
  "docker_logs logs =
     (case logs of
        None \<Rightarrow> Inl (Uncaught UnicodeDecodeError)
      | Some text \<Rightarrow>
          Inr [''********** Start Docker Logs **********'', text,
               ''********** End Docker Logs **********''])"

text \<open>
  \<^verbatim>\<open>docker_run\<close> (lines 397-462).  \<open>run_ok\<close> says whether \<^verbatim>\<open>containers.run\<close> succeeded
  (otherwise \<^verbatim>\<open>APIError\<close> is caught and the process exits with 1); \<open>container_key\<close> is
  \<^verbatim>\<open>kwargs['container']\<close> and \<open>name\<close> is \<^verbatim>\<open>kwargs['name']\<close>.  A normal return gives the
  updated table and the lines printed after the waiting: warning and log dump.  When
  the container has exited, the log is dumped before \<^verbatim>\<open>sys.exit(1)\<close>.
\<close>

definition docker_run ::
  "bool \<Rightarrow> (nat \<Rightarrow> cont_view) \<Rightarrow> string option \<Rightarrow> docker_containers \<Rightarrow> bool \<Rightarrow> service_key \<Rightarrow> string
     \<Rightarrow> failure + (docker_containers \<times> string list)"
where
  "docker_run run_ok obs logs dc skip_health container_key name =
     (if \<not> run_ok then Inl (Exit 1 [''ERROR: APIError''])
      else if skip_health then Inr (dc, [])
      else
        (case status_wait obs ''running'' 20 0 of
           Inl f \<Rightarrow> Inl f
         | Inr (r, t) \<Rightarrow>
             if r = ''exited''
             then (case docker_logs logs of
                     Inl f \<Rightarrow> Inl f
                   | Inr dump \<Rightarrow>
                       Inl (Exit 1 ((''ERROR: Container did not start successfully, status: ''
                                       @ view_status (obs t)) # dump)))
             else
               (case view_health (obs t) of
                  Some h0 \<Rightarrow>
                    (case status_wait obs ''healthy'' 20 (Suc t) of
                       Inl f \<Rightarrow> Inl f
                     | Inr (h, t') \<Rightarrow>
                         if h \<noteq> ''healthy''
                         then (case docker_logs logs of
                                 Inl f \<Rightarrow> Inl f
                               | Inr dump \<Rightarrow>
                                   Inr (dc(container_key := (dc container_key)\<lparr>startedok := Some True\<rparr>),
                                        unhealthy_warning name # dump))
                         else Inr (dc(container_key := (dc container_key)\<lparr>startedok := Some True\<rparr>), []))
                | None \<Rightarrow>
                    Inr (dc(container_key := (dc container_key)\<lparr>startedok := Some True\<rparr>),
                         [''This container doesn't report health'',
                          ''Use the command '' @ [CHR 0x22] @ ''docker logs '' @ name @ [CHR 0x22]
                            @ '' to check status if issues arise '']))))"

text \<open>What a call of \<^verbatim>\<open>docker_run\<close> leaves: the three \<^verbatim>\<open>startedok\<close> flags and the warnings.\<close>

definition started_flags ::
  "failure + (docker_containers \<times> string list) \<Rightarrow> failure + (bool option list \<times> string list)" where
  "started_flags r =
     (case r of Inl f \<Rightarrow> Inl f | Inr (dc, out) \<Rightarrow> Inr (map (\<lambda>k. startedok (dc k)) service_keys, out))"

section \<open>Image bundles: \<^verbatim>\<open>save_images\<close> and \<open>load_images\<close>\<close>

text \<open>
  The file system, as far as the bundle code touches it: a table from path to node.  A
  node is a directory or a file; a file holds the engine's export of one image
  (identified by the reference it was saved under), a gzip-compressed tar with its
  members in the order they were added, or other bytes.  Paths are compared as
  written.  The image store is the list of image references present.
\<close>

datatype content = ImageTar string | Archive "(string \<times> content) list" | OtherBytes string

datatype node = File content | Dir

type_synonym filesystem = "(string \<times> node) list"

definition fs_lookup :: "filesystem \<Rightarrow> string \<Rightarrow> node option" where
  "fs_lookup fs p = map_of fs p"

definition fs_delete :: "filesystem \<Rightarrow> string \<Rightarrow> filesystem" where
  "fs_delete fs p = filter (\<lambda>e. fst e \<noteq> p) fs"

definition fs_put :: "filesystem \<Rightarrow> string \<Rightarrow> node \<Rightarrow> filesystem" where
  "fs_put fs p n = (p, n) # fs_delete fs p"

text \<open>\<^verbatim>\<open>Path(p).name\<close> and \<^verbatim>\<open>Path(p).parent\<close> for a path with a slash in it.\<close>

definition basename :: "string \<Rightarrow> string" where
  "basename p = rev (takeWhile (\<lambda>c. c \<noteq> CHR ''/'') (rev p))"

definition dirname :: "string \<Rightarrow> string" where
  "dirname p = rev (tl (dropWhile (\<lambda>c. c \<noteq> CHR ''/'') (rev p)))"

text \<open>
  \<^verbatim>\<open>os.remove(path)\<close>: deletes a file; raises \<^verbatim>\<open>FileNotFoundError\<close> when nothing is
  there and \<^verbatim>\<open>IsADirectoryError\<close> (an \<^verbatim>\<open>OSError\<close>) when the path is a directory.
\<close>

definition os_remove :: "filesystem \<Rightarrow> string \<Rightarrow> py_exception + filesystem" where
  "os_remove fs p =
     (case fs_lookup fs p of
        None \<Rightarrow> Inl FileNotFoundError
      | Some Dir \<Rightarrow> Inl IsADirectoryError
      | Some (File c) \<Rightarrow> Inr (fs_delete fs p))"

text \<open>
  \<^verbatim>\<open>open(path, 'wb')\<close> followed by the writes: the directory of the file must exist
  (\<^verbatim>\<open>FileNotFoundError\<close> otherwise), the path must not be a directory.
\<close>

definition write_file :: "filesystem \<Rightarrow> string \<Rightarrow> string \<Rightarrow> content \<Rightarrow> py_exception + filesystem" where
  "write_file fs dir p c =
     (if fs_lookup fs dir \<noteq> Some Dir then Inl FileNotFoundError
      else if fs_lookup fs p = Some Dir then Inl IsADirectoryError
      else Inr (fs_put fs p (File c)))"

text \<open>\<^verbatim>\<open>s.replace(a, b)\<close> for single characters.\<close>

definition replace_char :: "char \<Rightarrow> char \<Rightarrow> string \<Rightarrow> string" where
  "replace_char a b s = map (\<lambda>c. if c = a then b else c) s"

definition package_file_name :: "string \<Rightarrow> string \<Rightarrow> string" where
  "package_file_name package_path img =
     package_path @ ''/SzGoPackage-''
       @ replace_char CHR '':'' CHR ''-'' (replace_char CHR ''/'' CHR ''-'' img) @ ''.tar''"

text \<open>
  Lines 672-683, an explicit image list: with Docker Hub reachable every image is
  pulled first; an image the engine then does not have ends the run.  The engine's
  answers (\<open>image_exists\<close>, \<open>pull_ok\<close> of \<^verbatim>\<open>docker_pull\<close>, and \<open>image_get_ok\<close> for
  \<^verbatim>\<open>images.get\<close>) are parameters.
\<close>

fun requested_images ::
  "(string \<Rightarrow> bool) \<Rightarrow> bool \<Rightarrow> string list \<Rightarrow> failure + string list" where
  "requested_images image_get_ok access_dockerhub [] = Inr []"
| "requested_images image_get_ok access_dockerhub (img # imgs) =
     (if \<not> image_get_ok img
      then Inl (Exit 1 [''ERROR: Image '' @ img @ '' isn't available to save, can't complete request.''])
      else (case requested_images image_get_ok access_dockerhub imgs of
              Inl f \<Rightarrow> Inl f
            | Inr rest \<Rightarrow> Inr (img # rest)))"

text \<open>
  Lines 687-714, no image list: of the sorted first tags of all local images, those
  with more than one colon are skipped, the last version seen per name is kept, and
  only the three service images are packaged.  \<open>newest\<close> is the dictionary
  \<^verbatim>\<open>images_newest_dict\<close> in insertion order.
\<close>

definition count_char :: "char \<Rightarrow> string \<Rightarrow> nat" where
  "count_char c s = length (filter (\<lambda>x. x = c) s)"

fun dict_set :: "(string \<times> 'v) list \<Rightarrow> string \<Rightarrow> 'v \<Rightarrow> (string \<times> 'v) list" where
  "dict_set [] k v = [(k, v)]"
| "dict_set ((k', v') # kvs) k v = (if k' = k then (k, v) # kvs else (k', v') # dict_set kvs k v)"

fun images_newest :: "string list \<Rightarrow> (string \<times> string) list \<Rightarrow> failure + (string \<times> string) list" where
  "images_newest [] newest = Inr newest"
| "images_newest (img # imgs) newest =
     (if count_char CHR '':'' img > 1 then images_newest imgs newest
      else (case unpack2 (split_on CHR '':'' img) of
              Inl f \<Rightarrow> Inl f
            | Inr (name, version) \<Rightarrow> images_newest imgs (dict_set newest name version)))"

definition default_images :: "docker_containers \<Rightarrow> string list \<Rightarrow> failure + string list" where
  "default_images dc first_tags =
     (case images_newest (sort first_tags) [] of
        Inl f \<Rightarrow> Inl f
      | Inr newest \<Rightarrow>
          Inr (filter (\<lambda>candidate_image.
                         takeWhile (\<lambda>c. c \<noteq> CHR '':'') candidate_image
                           \<in> {imagename (dc restapi), imagename (dc webapp), imagename (dc swagger)})
                 (map (\<lambda>(k, v). k @ '':'' @ v) newest)))"

text \<open>
  Lines 722-734: every image is written to its own file.  \<^verbatim>\<open>open(..., 'wb')\<close> creates
  the file empty before the image is fetched; a missing directory ends the run with
  status 1.  The file system is returned with the outcome, also when the loop fails.
\<close>

fun write_packages ::
  "(string \<Rightarrow> bool) \<Rightarrow> string \<Rightarrow> string list \<Rightarrow> filesystem \<Rightarrow> filesystem \<times> (failure + string list)" where
  "write_packages image_get_ok package_path [] fs = (fs, Inr [])"
| "write_packages image_get_ok package_path (img # imgs) fs =
     (let package_file = package_file_name package_path img in
      case write_file fs package_path package_file (OtherBytes []) of
        Inl FileNotFoundError \<Rightarrow> (fs, Inl (Exit 1 [''ERROR: No such file or directory: '' @ package_file]))
      | Inl e \<Rightarrow> (fs, Inl (Uncaught e))
      | Inr fs0 \<Rightarrow>
          if \<not> image_get_ok img then (fs0, Inl (Uncaught ImageNotFound))
          else (case write_packages image_get_ok package_path imgs
                       (fs_put fs0 package_file (File (ImageTar img))) of
                  (fs2, Inl f) \<Rightarrow> (fs2, Inl f)
                | (fs2, Inr packaged_files) \<Rightarrow> (fs2, Inr (package_file # packaged_files))))"

text \<open>
  Lines 741-748: each intermediate file is added to the archive under its base name
  and removed right away.  Adding a file that is not there raises
  \<^verbatim>\<open>FileNotFoundError\<close>, which the handler turns into exit status 1.  The result is the
  file system, the members the archive holds by then, and the failure if there was
  one.  (A directory under such a name makes \<^verbatim>\<open>os.remove\<close> raise; the entry \<^verbatim>\<open>tar.add\<close>
  writes for it is not recorded, and \<open>write_packages\<close> never leaves one.)
\<close>

fun tar_add_all ::
  "string list \<Rightarrow> filesystem \<Rightarrow> (string \<times> content) list
     \<Rightarrow> filesystem \<times> (string \<times> content) list \<times> failure option" where
  "tar_add_all [] fs members = (fs, members, None)"
| "tar_add_all (name # names) fs members =
     (case fs_lookup fs name of
        Some (File c) \<Rightarrow>
          (case os_remove fs name of
             Inl e \<Rightarrow> (fs, members @ [(basename name, c)], Some (Uncaught e))
           | Inr fs1 \<Rightarrow> tar_add_all names fs1 (members @ [(basename name, c)]))
      | Some Dir \<Rightarrow> (fs, members, Some (Uncaught IsADirectoryError))
      | None \<Rightarrow> (fs, members, Some (Exit 1 [''ERROR: No such file or directory: '' @ name])))"

text \<open>
  \<^verbatim>\<open>save_images\<close> (lines 654-752).  \<open>timestamp\<close> is what \<^verbatim>\<open>get_timestamp()\<close> returns,
  \<open>first_tags\<close> the first tag of every image the engine lists after the pulls.  The
  result is the file system the call leaves and its outcome: the bundle's path, or
  the failure.  \<^verbatim>\<open>tarfile.open\<close> creates the bundle before the loop and the \<^verbatim>\<open>with\<close>
  statement closes it also when the loop raises, so after a failure in the loop the
  bundle is on disk with the members added until then.  An image export is identified
  by the reference it was fetched under.
\<close>

definition save_images ::
  "(string \<Rightarrow> bool) \<Rightarrow> (string \<Rightarrow> bool) \<Rightarrow> (string \<Rightarrow> bool) \<Rightarrow> string list \<Rightarrow> string
     \<Rightarrow> docker_containers \<Rightarrow> string list \<Rightarrow> string \<Rightarrow> bool \<Rightarrow> bool \<Rightarrow> bool \<Rightarrow> bool \<Rightarrow> filesystem
     \<Rightarrow> filesystem \<times> (failure + string)"
where
  "save_images image_exists pull_ok image_get_ok first_tags timestamp
      dc images_arg package_path access_dockerhub no_web_app no_swagger force_pull fs =
     (case (if images_arg \<noteq> []
            then requested_images image_get_ok access_dockerhub images_arg
            else (case (if access_dockerhub
                        then pull_default_images image_exists pull_ok no_web_app no_swagger force_pull
                               service_keys dc
                        else Inr dc) of
                    Inl f \<Rightarrow> Inl f
                  | Inr dc1 \<Rightarrow> default_images dc1 first_tags)) of
        Inl f \<Rightarrow> (fs, Inl f)
      | Inr avail_images_with_tag \<Rightarrow>
          if avail_images_with_tag = []
          then (fs, Inl (Exit 1 [''ERROR: There are no locally available images to save'']))
          else
            (case write_packages image_get_ok package_path avail_images_with_tag fs of
               (fs1, Inl f) \<Rightarrow> (fs1, Inl f)
             | (fs1, Inr packaged_files) \<Rightarrow>
                 let compressed_package = package_path @ ''/SzGoImages_'' @ timestamp @ ''.tgz'' in
                 if fs_lookup fs1 compressed_package = Some Dir
                 then (fs1, Inl (Uncaught IsADirectoryError))
                 else
                   (case tar_add_all packaged_files fs1 [] of
                      (fs2, members, failed) \<Rightarrow>
                        (fs_put fs2 compressed_package (File (Archive members)),
                         case failed of Some f \<Rightarrow> Inl f | None \<Rightarrow> Inr compressed_package))))"

text \<open>
  \<^verbatim>\<open>tar.extractall(path=extract_path)\<close>: every member is written below the directory,
  which is created with the first member when it is not there; a member in a
  subdirectory also creates that subdirectory.  An archive without members creates
  nothing.  A file in the place of the directory, or a directory in the place of a
  member, makes the extraction raise.
\<close>

fun extractall :: "string \<Rightarrow> (string \<times> content) list \<Rightarrow> filesystem \<Rightarrow> py_exception + filesystem"
  and extract_member ::
    "string \<Rightarrow> string \<Rightarrow> content \<Rightarrow> (string \<times> content) list \<Rightarrow> filesystem \<Rightarrow> py_exception + filesystem"
where
  "extractall extract_path [] fs = Inr fs"
| "extractall extract_path ((name, c) # members) fs =
     (case fs_lookup fs extract_path of
        Some (File x) \<Rightarrow> Inl NotADirectoryError
      | Some Dir \<Rightarrow> extract_member extract_path name c members fs
      | None \<Rightarrow> extract_member extract_path name c members (fs_put fs extract_path Dir))"
| "extract_member extract_path name c members fs =
     (let fs1 = (if CHR ''/'' \<in> set name
                 then fs_put fs (extract_path @ ''/'' @ takeWhile (\<lambda>x. x \<noteq> CHR ''/'') name) Dir
                 else fs)
      in if fs_lookup fs1 (extract_path @ ''/'' @ name) = Some Dir then Inl IsADirectoryError
         else extractall extract_path members (fs_put fs1 (extract_path @ ''/'' @ name) (File c)))"

text \<open>
  \<^verbatim>\<open>os.scandir(extract_path)\<close>: the entries directly in the directory, here in the
  order of the table; a path that is not there raises \<^verbatim>\<open>FileNotFoundError\<close>.
\<close>

definition scandir :: "filesystem \<Rightarrow> string \<Rightarrow> py_exception + (string \<times> node) list" where
  "scandir fs d =
     (case fs_lookup fs d of
        None \<Rightarrow> Inl FileNotFoundError
      | Some (File c) \<Rightarrow> Inl NotADirectoryError
      | Some Dir \<Rightarrow> Inr (filter (\<lambda>e. dirname (fst e) = d) fs))"

text \<open>
  Lines 771-778: every entry is opened and handed to \<^verbatim>\<open>images.load\<close>.  The engine
  loads an image export and adds its reference to the store; anything else makes the
  engine's call raise, and opening a directory raises too.  Neither is caught.
\<close>

fun load_entries :: "(string \<times> node) list \<Rightarrow> string list \<Rightarrow> failure + string list" where
  "load_entries [] store = Inr store"
| "load_entries ((image_file, n) # entries) store =
     (case n of
        Dir \<Rightarrow> Inl (Uncaught IsADirectoryError)
      | File (ImageTar img) \<Rightarrow> load_entries entries (List.insert img store)
      | File c \<Rightarrow> Inl (Uncaught ImageLoadError))"

text \<open>
  \<^verbatim>\<open>load_images\<close> (lines 755-782).  The \<^verbatim>\<open>os.scandir\<close> call is outside the \<^verbatim>\<open>try\<close>, so
  for an archive without members, which leaves no directory, \<^verbatim>\<open>FileNotFoundError\<close>
  escapes.  The last step is \<^verbatim>\<open>with suppress(Exception): os.remove(extract_path)\<close>:
  whatever \<^verbatim>\<open>os.remove\<close> raises is dropped and the file system stays as it is.
\<close>

definition load_images ::
  "string \<Rightarrow> string \<Rightarrow> string \<Rightarrow> filesystem \<Rightarrow> string list \<Rightarrow> failure + (filesystem \<times> string list)" where
  "load_images timestamp var_path load_file_path fs store =
     (let extract_path = var_path @ ''/SzGo_Extract_'' @ timestamp in
      case fs_lookup fs load_file_path of
        None \<Rightarrow> Inl (Exit 1 [''ERROR: No such file or directory: '' @ load_file_path])
      | Some Dir \<Rightarrow> Inl (Uncaught IsADirectoryError)
      | Some (File (Archive members)) \<Rightarrow>
          (case extractall extract_path members fs of
             Inl e \<Rightarrow> Inl (Uncaught e)
           | Inr fs1 \<Rightarrow>
               (case scandir fs1 extract_path of
                  Inl e \<Rightarrow> Inl (Uncaught e)
                | Inr entries \<Rightarrow>
                    (case load_entries entries store of
                       Inl f \<Rightarrow> Inl f
                     | Inr store1 \<Rightarrow>
                         (case os_remove fs1 extract_path of
                            Inl e \<Rightarrow> Inr (fs1, store1)
                          | Inr fs2 \<Rightarrow> Inr (fs2, store1)))))
      | Some (File c) \<Rightarrow> Inl (Uncaught ReadError))"

section \<open>The configuration and its JSON text\<close>

text \<open>
  \<^verbatim>\<open>convert_ini2json\<close> turns the INI file into a dictionary of sections, each a
  dictionary from option name to string.  Dictionaries keep insertion order, so both
  levels are association lists (with distinct keys); \<open>dict_set\<close> above is the
  assignment \<^verbatim>\<open>d[k] = v\<close>.  Strings are lists of characters with code points below 256.
\<close>

type_synonym ini_section = "(string \<times> string) list"

type_synonym ini = "(string \<times> ini_section) list"

text \<open>\<^verbatim>\<open>d[k]\<close>: a missing key raises \<^verbatim>\<open>KeyError\<close>.\<close>

definition dict_get :: "(string \<times> 'v) list \<Rightarrow> string \<Rightarrow> failure + 'v" where
  "dict_get d k = (case map_of d k of None \<Rightarrow> Inl (Uncaught KeyError) | Some v \<Rightarrow> Inr v)"

text \<open>
  \<^verbatim>\<open>s.lower()\<close>.  Only the letters A to Z are mapped: the script compares the result
  with lower-case ASCII words only, and no character between 128 and 255 lowers to an
  ASCII letter.
\<close>

definition lower_char :: "char \<Rightarrow> char" where
  "lower_char c = (if CHR ''A'' \<le> c \<and> c \<le> CHR ''Z'' then char_of (of_char c + (32::nat)) else c)"

definition lower :: "string \<Rightarrow> string" where
  "lower s = map lower_char s"

text \<open>
  \<^verbatim>\<open>s.replace(old, new)\<close>: the occurrences of \<open>old\<close> are replaced from the left, without
  overlap.  With an empty \<open>old\<close> Python puts \<open>new\<close> before every character and at the end.
\<close>

function replace_str :: "string \<Rightarrow> string \<Rightarrow> string \<Rightarrow> string" where
  "replace_str old new [] = (if old = [] then new else [])"
| "replace_str old new (c # cs) =
     (if old = [] then new @ c # replace_str old new cs
      else if startswith (c # cs) old then new @ replace_str old new (drop (length old) (c # cs))
      else c # replace_str old new cs)"
  by pat_completeness auto
termination
  by (relation "measure (\<lambda>(old, new, s). length s)") auto

text \<open>
  A JSON value, as far as the configuration needs it: a string or an object.
\<close>

datatype json = JString string | JObject "(string \<times> json) list"

definition ini_to_json :: "ini \<Rightarrow> json" where
  "ini_to_json cfg = JObject (map (\<lambda>(name, sec). (name, JObject (map (\<lambda>(k, v). (k, JString v)) sec))) cfg)"

text \<open>
  \<^verbatim>\<open>json.dumps\<close> with its defaults: items separated by a comma and a space, key and
  value by a colon and a space, and strings escaped to ASCII
  (\<^verbatim>\<open>py_encode_basestring_ascii\<close>): backslash and double quote get a backslash, the
  five control characters their letter, every other character outside the range from
  space to tilde becomes \<^verbatim>\<open>\u00XX\<close> with lower-case hexadecimal digits.
\<close>

definition dquote :: char where
  "dquote = CHR 0x22"

definition backslash :: char where
  "backslash = CHR 0x5C"

definition hex_digit :: "nat \<Rightarrow> char" where
  "hex_digit n = (if n < 10 then char_of (48 + n) else char_of (87 + n))"

definition json_escape_char :: "char \<Rightarrow> string" where
  "json_escape_char c =
     (if c = backslash then [backslash, backslash]
      else if c = dquote then [backslash, dquote]
      else if c = CHR 0x08 then [backslash, CHR ''b'']
      else if c = CHR 0x0C then [backslash, CHR ''f'']
      else if c = CHR 0x0A then [backslash, CHR ''n'']
      else if c = CHR 0x0D then [backslash, CHR ''r'']
      else if c = CHR 0x09 then [backslash, CHR ''t'']
      else if CHR 0x20 \<le> c \<and> c \<le> CHR 0x7E then [c]
      else [backslash, CHR ''u'', CHR ''0'', CHR ''0'',
            hex_digit (of_char c div 16), hex_digit (of_char c mod 16)])"

definition json_string :: "string \<Rightarrow> string" where
  "json_string s = dquote # concat (map json_escape_char s) @ [dquote]"

fun join :: "string \<Rightarrow> string list \<Rightarrow> string" where
  "join sep [] = []"
| "join sep [x] = x"
| "join sep (x # y # ys) = x @ sep @ join sep (y # ys)"

fun json_dumps :: "json \<Rightarrow> string" where
  "json_dumps (JString s) = json_string s"
| "json_dumps (JObject kvs) =
     ''{'' @ join '', '' (map (\<lambda>(k, v). json_string k @ '': '' @ json_dumps v) kvs) @ ''}''"

text \<open>
  \<^verbatim>\<open>json.loads\<close> on objects and strings.  White space between tokens is skipped; in a
  string a raw control character and an unknown escape are errors, and \<^verbatim>\<open>\uXXXX\<close> is
  read for code points below 256; in an object a repeated key keeps its first place
  and takes the last value.  Numbers, arrays and literals do not occur in the text
  \<^verbatim>\<open>json.dumps\<close> writes for a configuration and are not read here.  The first argument
  of the two parsing functions bounds the number of steps; \<open>json_loads\<close> starts them
  with more than the text can use.
\<close>

definition hex_value :: "char \<Rightarrow> nat option" where
  "hex_value c =
     (if CHR ''0'' \<le> c \<and> c \<le> CHR ''9'' then Some (of_char c - 48)
      else if CHR ''a'' \<le> c \<and> c \<le> CHR ''f'' then Some (of_char c - 87)
      else if CHR ''A'' \<le> c \<and> c \<le> CHR ''F'' then Some (of_char c - 55)
      else None)"

definition unicode_escape :: "char \<Rightarrow> char \<Rightarrow> char \<Rightarrow> char \<Rightarrow> char option" where
  "unicode_escape a b c d =
     (case (hex_value a, hex_value b, hex_value c, hex_value d) of
        (Some 0, Some 0, Some h, Some l) \<Rightarrow> Some (char_of (16 * h + l))
      | _ \<Rightarrow> None)"

definition simple_escape :: "char \<Rightarrow> char option" where
  "simple_escape e =
     (if e = dquote then Some dquote
      else if e = backslash then Some backslash
      else if e = CHR ''/'' then Some CHR ''/''
      else if e = CHR ''b'' then Some (CHR 0x08)
      else if e = CHR ''f'' then Some (CHR 0x0C)
      else if e = CHR ''n'' then Some (CHR 0x0A)
      else if e = CHR ''r'' then Some (CHR 0x0D)
      else if e = CHR ''t'' then Some (CHR 0x09)
      else None)"

definition cons_result :: "char \<Rightarrow> (string \<times> string) option \<Rightarrow> (string \<times> string) option" where
  "cons_result c r = (case r of None \<Rightarrow> None | Some (s, rest) \<Rightarrow> Some (c # s, rest))"

text \<open>The text after an opening quote: the string and what follows its closing quote.\<close>

fun parse_string :: "string \<Rightarrow> (string \<times> string) option" where
  "parse_string [] = None"
| "parse_string [c] = (if c = dquote then Some ([], []) else None)"
| "parse_string (c # e # r) =
     (if c = dquote then Some ([], e # r)
      else if c = backslash
      then (if e = CHR ''u''
            then (case r of
                    h1 # h2 # h3 # h4 # r' \<Rightarrow>
                      (case unicode_escape h1 h2 h3 h4 of
                         None \<Rightarrow> None
                       | Some u \<Rightarrow> cons_result u (parse_string r'))
                  | _ \<Rightarrow> None)
            else (case simple_escape e of
                    None \<Rightarrow> None
                  | Some u \<Rightarrow> cons_result u (parse_string r)))
      else if c < CHR 0x20 then None
      else cons_result c (parse_string (e # r)))"

definition skip_ws :: "string \<Rightarrow> string" where
  "skip_ws s = dropWhile (\<lambda>c. c \<in> {CHR '' '', CHR 0x09, CHR 0x0A, CHR 0x0D}) s"

fun parse_value :: "string \<Rightarrow> string \<Rightarrow> (json \<times> string) option"
  and parse_members :: "string \<Rightarrow> (string \<times> json) list \<Rightarrow> string \<Rightarrow> (json \<times> string) option"
where
  "parse_value [] s = None"
| "parse_value (f # fuel) s =
     (case skip_ws s of
        [] \<Rightarrow> None
      | c # r \<Rightarrow>
          if c = dquote
          then (case parse_string r of None \<Rightarrow> None | Some (str, rest) \<Rightarrow> Some (JString str, rest))
          else if c = CHR ''{''
          then (case skip_ws r of
                  [] \<Rightarrow> None
                | c' # r' \<Rightarrow> if c' = CHR ''}'' then Some (JObject [], r') else parse_members fuel [] r)
          else None)"
| "parse_members [] acc s = None"
| "parse_members (f # fuel) acc s =
     (case skip_ws s of
        [] \<Rightarrow> None
      | c # r \<Rightarrow>
          if c = dquote
          then (case parse_string r of
                  None \<Rightarrow> None
                | Some (k, r1) \<Rightarrow>
                    (case skip_ws r1 of
                       [] \<Rightarrow> None
                     | c1 # r2 \<Rightarrow>
                         if c1 = CHR '':''
                         then (case parse_value fuel r2 of
                                 None \<Rightarrow> None
                               | Some (v, r3) \<Rightarrow>
                                   (case skip_ws r3 of
                                      [] \<Rightarrow> None
                                    | c3 # r4 \<Rightarrow>
                                        if c3 = CHR '',''
                                        then parse_members fuel (dict_set acc k v) r4
                                        else if c3 = CHR ''}''
                                        then Some (JObject (dict_set acc k v), r4)
                                        else None))
                         else None))
          else None)"

definition json_loads :: "string \<Rightarrow> failure + json" where
  "json_loads s =
     (case parse_value (CHR ''x'' # s) s of
        None \<Rightarrow> Inl (Uncaught JSONDecodeError)
      | Some (v, rest) \<Rightarrow> if skip_ws rest = [] then Inr v else Inl (Uncaught JSONDecodeError))"

section \<open>Configuration translation: \<^verbatim>\<open>patch_ini_json\<close>\<close>

text \<open>
  \<^verbatim>\<open>type_connection_split\<close> (lines 788-800): \<^verbatim>\<open>split(':', 1)\<close> gives two parts exactly
  when there is a colon; otherwise the unpacking raises \<^verbatim>\<open>ValueError\<close>, the handler
  prints the diagnostic (the message and, on a second line, the connection string
  followed by the apostrophe the format string has there) and exits with status 1.
\<close>

definition type_connection_split :: "string \<Rightarrow> failure + (string \<times> string)" where
  "type_connection_split connection_string =
     (if CHR '':'' \<in> set connection_string
      then Inr (takeWhile (\<lambda>c. c \<noteq> CHR '':'') connection_string,
                tl (dropWhile (\<lambda>c. c \<noteq> CHR '':'') connection_string))
      else Inl (Exit 1 [''ERROR: Couldn't parse connection string and find the database type:'',
                        ''       '' @ connection_string @ [CHR 0x27]]))"

text \<open>
  \<^verbatim>\<open>get_path\<close> (lines 802-818).  Without an \<^verbatim>\<open>@\<close> the unpacking raises \<^verbatim>\<open>ValueError\<close>;
  the handler formats its message with \<^verbatim>\<open>conn_str\<close>, the variable the failed
  assignment never bound, so \<^verbatim>\<open>UnboundLocalError\<close> escapes before anything is printed.
  \<^verbatim>\<open>Path(conn_str).resolve().parent\<close> depends on the file system (symbolic links, the
  working directory) and is the parameter \<open>resolve_parent\<close>.
\<close>

definition get_path :: "(string \<Rightarrow> string) \<Rightarrow> string \<Rightarrow> failure + string" where
  "get_path resolve_parent connection_string =
     (case type_connection_split connection_string of
        Inl f \<Rightarrow> Inl f
      | Inr (dbtype, connection) \<Rightarrow>
          if CHR ''@'' \<in> set connection
          then Inr (resolve_parent (tl (dropWhile (\<lambda>c. c \<noteq> CHR ''@'') connection)))
          else Inl (Uncaught UnboundLocalError))"

text \<open>Lines 821-823: two options of \<^verbatim>\<open>PIPELINE\<close> are set and a third is deleted.\<close>

definition fix_pipeline :: "ini \<Rightarrow> failure + ini" where
  "fix_pipeline ini_json =
     (case map_of ini_json ''PIPELINE'' of
        None \<Rightarrow> Inl (Uncaught KeyError)
      | Some pipeline \<Rightarrow>
          let pipeline1 = dict_set (dict_set pipeline ''supportpath'' ''/opt/senzing/data'')
                            ''configpath'' ''/etc/opt/senzing''
          in if map_of pipeline1 ''resourcepath'' = None then Inl (Uncaught KeyError)
             else Inr (dict_set ini_json ''PIPELINE''
                         (filter (\<lambda>e. fst e \<noteq> ''resourcepath'') pipeline1)))"

text \<open>A list comprehension whose element expression may fail: the first failure wins.\<close>

fun map_fail :: "('a \<Rightarrow> failure + 'b) \<Rightarrow> 'a list \<Rightarrow> failure + 'b list" where
  "map_fail g [] = Inr []"
| "map_fail g (x # xs) =
     (case g x of
        Inl f \<Rightarrow> Inl f
      | Inr y \<Rightarrow> (case map_fail g xs of Inl f \<Rightarrow> Inl f | Inr ys \<Rightarrow> Inr (y # ys)))"

text \<open>
  Lines 836-843.  \<^verbatim>\<open>list(set(...))\<close> keeps one copy of every element, in an order
  Python does not specify; \<open>remdups\<close> stands for it, and nothing below depends on the
  order it picks.
\<close>

definition cluster_conn_strs :: "ini \<Rightarrow> string \<Rightarrow> failure + string list" where
  "cluster_conn_strs ini_json base_conn_str =
     (case dict_get ini_json ''HYBRID'' of
        Inl f \<Rightarrow> Inl f
      | Inr hybrid \<Rightarrow>
          (case map_fail (\<lambda>cluster_key.
                   case dict_get ini_json cluster_key of
                     Inl f \<Rightarrow> Inl f
                   | Inr sec \<Rightarrow> dict_get sec ''db_1'')
                 (remdups (map snd hybrid)) of
             Inl f \<Rightarrow> Inl f
           | Inr strs \<Rightarrow> Inr (strs @ [base_conn_str])))"

definition is_hybrid :: "ini_section \<Rightarrow> bool" where
  "is_hybrid sql = (case map_of sql ''backend'' of None \<Rightarrow> False | Some b \<Rightarrow> b \<noteq> [] \<and> lower b = ''hybrid'')"

text \<open>Lines 834-861: the one host directory to mount, or the fatal listing.\<close>

definition host_path_for_volume :: "(string \<Rightarrow> string) \<Rightarrow> ini \<Rightarrow> ini_section \<Rightarrow> string \<Rightarrow> failure + string" where
  "host_path_for_volume resolve_parent ini_json sql base_conn_str =
     (if is_hybrid sql
      then (case cluster_conn_strs ini_json base_conn_str of
              Inl f \<Rightarrow> Inl f
            | Inr strs \<Rightarrow>
                (case map_fail (get_path resolve_parent) strs of
                   Inl f \<Rightarrow> Inl f
                 | Inr path_list \<Rightarrow>
                     let unique_path_list = remdups path_list
                     in if length unique_path_list > 1
                        then Inl (Exit 1 (''When using a sqlite cluster, all database files must be in the same path:''
                                          # map (\<lambda>path. CHR 0x09 # path) unique_path_list))
                        else (case unique_path_list of
                                [] \<Rightarrow> Inl (Uncaught IndexError)
                              | path # _ \<Rightarrow> Inr path)))
      else get_path resolve_parent base_conn_str)"

text \<open>
  \<^verbatim>\<open>patch_ini_json\<close> (lines 785-873): the database type, the configuration for the
  container, and for sqlite the volume to mount (host directory, mount point, mode).
\<close>

definition patch_ini_json ::
  "(string \<Rightarrow> string) \<Rightarrow> ini \<Rightarrow> failure + (string \<times> json \<times> (string \<times> string \<times> string) option)" where
  "patch_ini_json resolve_parent ini_json =
     (case fix_pipeline ini_json of
        Inl f \<Rightarrow> Inl f
      | Inr ini1 \<Rightarrow>
          (case dict_get ini1 ''SQL'' of
             Inl f \<Rightarrow> Inl f
           | Inr sql \<Rightarrow>
               (case dict_get sql ''connection'' of
                  Inl f \<Rightarrow> Inl f
                | Inr base_conn_str \<Rightarrow>
                    (case type_connection_split base_conn_str of
                       Inl f \<Rightarrow> Inl f
                     | Inr (dbtype, connection) \<Rightarrow>
                         if lower dbtype = ''sqlite3''
                         then (case host_path_for_volume resolve_parent ini1 sql base_conn_str of
                                 Inl f \<Rightarrow> Inl f
                               | Inr host \<Rightarrow>
                                   (case json_loads (replace_str host ''/var/opt/senzing''
                                                       (json_dumps (ini_to_json ini1))) of
                                      Inl f \<Rightarrow> Inl f
                                    | Inr ini_json_patched \<Rightarrow>
                                        Inr (dbtype, ini_json_patched,
                                             Some (host, ''/var/opt/senzing'', ''rw''))))
                         else Inr (dbtype, ini_to_json ini1, None)))))"

section \<open>From the configuration to the first container: lines 1421-1508 of \<^verbatim>\<open>main\<close>\<close>

text \<open>
  What the host answers to the checks between the translation and the first
  \<^verbatim>\<open>docker_run\<close>: whether the MySQL client library is a file, the \<^verbatim>\<open>--db2CliPath\<close>
  argument, the file system tests and the lines of the Db2 driver configuration,
  whether the JSON file can be written, whether the script runs as root and the
  \<^verbatim>\<open>chown\<close> and \<^verbatim>\<open>chmod\<close> calls succeed, and whether \<^verbatim>\<open>pwd.getpwnam\<close> finds the user for
  the \<^verbatim>\<open>user\<close> argument of the container.
\<close>

record host =
  lib_mysql_is_file :: bool
  db2CliPath :: "string option"
  is_dir :: "string \<Rightarrow> bool"
  is_file :: "string \<Rightarrow> bool"
  read_lines :: "string \<Rightarrow> string list"
  ini_json_file_opens :: bool
  euid_is_root :: bool
  chown_ok :: bool
  chmod_ok :: bool
  user_known :: bool









text \<open>
  The parent directories claim C2 speaks of, in the specification's words: the
  directory of the base connection path and of the connection path \<^verbatim>\<open>db_1\<close> of every
  section that an entry of \<^verbatim>\<open>HYBRID\<close> names.  The path of a connection string is the
  text after the first \<^verbatim>\<open>@\<close> that follows the first colon.
\<close>

definition connection_path :: "string \<Rightarrow> string" where
  "connection_path connection_string =
     tl (dropWhile (\<lambda>c. c \<noteq> CHR ''@'') (tl (dropWhile (\<lambda>c. c \<noteq> CHR '':'') connection_string)))"

definition shard_connections :: "ini \<Rightarrow> string list" where
  "shard_connections ini_json =
     concat (map (\<lambda>(k, cluster_key).
                    case map_of ini_json cluster_key of
                      None \<Rightarrow> []
                    | Some sec \<Rightarrow> (case map_of sec ''db_1'' of None \<Rightarrow> [] | Some c \<Rightarrow> [c]))
                 (case map_of ini_json ''HYBRID'' of None \<Rightarrow> [] | Some hybrid \<Rightarrow> hybrid))"

definition database_directories :: "(string \<Rightarrow> string) \<Rightarrow> ini \<Rightarrow> string \<Rightarrow> string set" where
  "database_directories resolve_parent ini_json base_conn_str =
     set (map (\<lambda>c. resolve_parent (connection_path c)) (base_conn_str # shard_connections ini_json))"

chapter \<open>Verification\<close>

section \<open>Teardown touches project containers only\<close>

lemma filter_map_frame:
  "(\<And>x. x \<in> set xs \<Longrightarrow> f x \<noteq> x \<Longrightarrow> \<not> P x \<and> \<not> P (f x)) \<Longrightarrow> filter P (map f xs) = filter P xs"
proof (induction xs)
  case Nil
  show ?case by simp
next
  case (Cons a xs)
  have rest: "filter P (map f xs) = filter P xs"
    using Cons by simp
  show ?case
  proof (cases "f a = a")
    case True
    then show ?thesis using rest by simp
  next
    case False
    then have "\<not> P a \<and> \<not> P (f a)" using Cons.prems by simp
    then show ?thesis using rest by simp
  qed
qed

lemma cont_stop_foreign:
  assumes "\<not> foreign names cont"
  shows "filter (foreign names) (containers (cont_stop stop_ok cont e)) = filter (foreign names) (containers e)"
proof (cases "stop_ok (attrs_Name cont)")
  case False
  then show ?thesis by (simp add: cont_stop_def)
next
  case True
  have "filter (foreign names)
          (map (\<lambda>d. if attrs_Name d = attrs_Name cont then d\<lparr>cont_status := ''exited''\<rparr> else d) (containers e))
        = filter (foreign names) (containers e)"
    using assms by (intro filter_map_frame) (auto simp: foreign_def split: if_splits)
  then show ?thesis using True by (simp add: cont_stop_def)
qed

lemma cont_remove_foreign:
  assumes "\<not> foreign names cont"
  shows "filter (foreign names) (containers (cont_remove remove_ok cont e)) = filter (foreign names) (containers e)"
proof (cases "remove_ok (attrs_Name cont)")
  case False
  then show ?thesis by (simp add: cont_remove_def)
next
  case True
  have "filter (foreign names) (filter (\<lambda>d. attrs_Name d \<noteq> attrs_Name cont) (containers e))
        = filter (foreign names) (containers e)"
    using assms by (auto simp: foreign_def intro!: filter_cong)
  then show ?thesis using True by (simp add: cont_remove_def)
qed

lemma stop_remove_loop_foreign:
  "filter (foreign names) (containers (stop_remove_loop stop_ok remove_ok names do_remove conts e))
   = filter (foreign names) (containers e)"
proof (induction conts arbitrary: e)
  case Nil
  show ?case by simp
next
  case (Cons cont conts)
  show ?case
  proof (cases "foreign names cont")
    case True
    then show ?thesis using Cons.IH by (simp add: foreign_def)
  next
    case False
    then have inn: "lstrip CHR ''/'' (attrs_Name cont) \<in> set names" by (simp add: foreign_def)
    show ?thesis
      using inn Cons.IH cont_stop_foreign [OF False] cont_remove_foreign [OF False]
      by (simp add: Let_def)
  qed
qed

lemma network_remove_containers:
  "containers (network_remove net_matches docker_network e) = containers e"
  by (simp add: network_remove_def split: list.splits)

text \<open>
  Claim C10.  Teardown stops or removes only containers whose recorded name (leading
  slash stripped) is one of the three project container names \<open>SzGo-API-<suffix>\<close>,
  \<open>SzGo-WEB-<suffix>\<close>, \<open>SzGo-Swagger-<suffix>\<close>.  Whatever the engine's name filter
  lets through, whatever the flags, the prompt answer and the outcome of each stop and
  remove call: the containers with any other name are, in order and with their status,
  exactly what they were before the call.
\<close>

theorem containers_stop_remove_frame:
  assumes "containers_stop_remove name_matches net_matches stop_ok remove_ok answer suffix e
             (set_container_names suffix dc) containers_remove containers_remove_no_prompt
             docker_network startup_remove forced_remove = Inr e'"
  shows "filter (foreign [''SzGo-API-'' @ suffix, ''SzGo-WEB-'' @ suffix, ''SzGo-Swagger-'' @ suffix])
           (containers e')
         = filter (foreign [''SzGo-API-'' @ suffix, ''SzGo-WEB-'' @ suffix, ''SzGo-Swagger-'' @ suffix])
             (containers e)"
proof -
  have names: "project_container_names (set_container_names suffix dc)
               = [''SzGo-API-'' @ suffix, ''SzGo-WEB-'' @ suffix, ''SzGo-Swagger-'' @ suffix]"
    by (simp add: project_container_names_def set_container_names_def service_keys_def)
  show ?thesis
    using assms
    unfolding containers_stop_remove_def Let_def names
    by (auto split: if_splits simp: stop_remove_loop_foreign network_remove_containers)
qed

text \<open>
  A run of \<^verbatim>\<open>-rn\<close> for the project \<open>demo\<close>: the engine's filter (here: substring match)
  lists both the API container and a database container whose name merely contains
  \<open>demo\<close>; the first is removed, the second stays as it was.
\<close>

theorem containers_stop_remove_frame_witness:
  "containers_stop_remove substring_in substring_in (\<lambda>n. True) (\<lambda>n. True) [] ''demo''
      \<lparr>containers = [\<lparr>attrs_Name = ''/SzGo-API-demo'', cont_status = ''running''\<rparr>,
                     \<lparr>attrs_Name = ''/demo-postgres'', cont_status = ''running''\<rparr>],
       networks = [''szgo-network'']\<rparr>
      (set_container_names ''demo'' (initial_docker_containers ''demo''))
      False True ''szgo-network'' False False
    = Inr \<lparr>containers = [\<lparr>attrs_Name = ''/demo-postgres'', cont_status = ''running''\<rparr>],
           networks = []\<rparr>
   \<and> filter (foreign [''SzGo-API-'' @ ''demo'', ''SzGo-WEB-'' @ ''demo'', ''SzGo-Swagger-'' @ ''demo''])
        (containers \<lparr>containers = [\<lparr>attrs_Name = ''/demo-postgres'', cont_status = ''running''\<rparr>],
                     networks = []\<rparr>)
     = filter (foreign [''SzGo-API-'' @ ''demo'', ''SzGo-WEB-'' @ ''demo'', ''SzGo-Swagger-'' @ ''demo''])
        (containers \<lparr>containers = [\<lparr>attrs_Name = ''/SzGo-API-demo'', cont_status = ''running''\<rparr>,
                                    \<lparr>attrs_Name = ''/demo-postgres'', cont_status = ''running''\<rparr>],
                     networks = [''szgo-network'']\<rparr>)"
proof -
  have run: "containers_stop_remove substring_in substring_in (\<lambda>n. True) (\<lambda>n. True) [] ''demo''
      \<lparr>containers = [\<lparr>attrs_Name = ''/SzGo-API-demo'', cont_status = ''running''\<rparr>,
                     \<lparr>attrs_Name = ''/demo-postgres'', cont_status = ''running''\<rparr>],
       networks = [''szgo-network'']\<rparr>
      (set_container_names ''demo'' (initial_docker_containers ''demo''))
      False True ''szgo-network'' False False
    = Inr \<lparr>containers = [\<lparr>attrs_Name = ''/demo-postgres'', cont_status = ''running''\<rparr>],
           networks = []\<rparr>"
    by (simp add: containers_stop_remove_def docker_cont_list_def project_container_names_def
          set_container_names_def initial_docker_containers_def service_keys_def lstrip_def
          cont_stop_def cont_remove_def network_remove_def Let_def)
  show ?thesis
    using run containers_stop_remove_frame [OF run] by simp
qed

section \<open>Image tags\<close>







lemma local_tags_other:
  "local_tags il ks dc = Inr dc' \<Longrightarrow> k \<notin> set ks \<Longrightarrow> dc' k = dc k"
  by (induction ks arbitrary: dc) (auto simp: set_tag_def split: if_splits sum.splits)


lemma local_tags_tag:
  "local_tags il ks dc = Inr dc' \<Longrightarrow> k \<in> set ks \<Longrightarrow> distinct ks \<Longrightarrow> imageavailable (dc k) = Some True
   \<Longrightarrow> newest_local_tag (il (imagename (dc k))) = Inr t \<Longrightarrow> tag (dc' k) = Some t"
proof (induction ks arbitrary: dc)
  case Nil
  then show ?case by simp
next
  case (Cons a ks)
  show ?case
  proof (cases "a = k")
    case True
    then have "local_tags il ks (set_tag k t dc) = Inr dc'" using Cons.prems by simp
    moreover have "k \<notin> set ks" using Cons.prems True by simp
    ultimately have "dc' k = set_tag k t dc k" by (rule local_tags_other)
    then show ?thesis by (simp add: set_tag_def)
  next
    case False
    have kin: "k \<in> set ks" and dist: "distinct ks" using Cons.prems False by auto
    show ?thesis
    proof (cases "imageavailable (dc a) = Some True")
      case noav: False
      then have "local_tags il ks dc = Inr dc'" using Cons.prems by simp
      then show ?thesis using Cons.IH kin dist Cons.prems by blast
    next
      case av: True
      then obtain ta where ta: "newest_local_tag (il (imagename (dc a))) = Inr ta"
        and rest: "local_tags il ks (set_tag a ta dc) = Inr dc'"
        using Cons.prems by (auto split: sum.splits)
      have same: "set_tag a ta dc k = dc k" using False by (simp add: set_tag_def)
      show ?thesis
        using Cons.IH [OF rest kin dist] same Cons.prems by simp
    qed
  qed
qed















lemmas tag_eval_defs =
  resolve_tags_def manifest_tags_def manifest_tag_def override_tags_def override_tag_def truthy_def
  set_tag_def mark_available_def set_available_def avail_images_def image_tags_def
  initial_docker_containers_def service_keys_def newest_local_tag_def sort_reverse_def unpack2_def
  chosen_tags_def docker_pull_def Let_def

text \<open>
  Claim C4 at a concrete run.  The command line asks for the REST API tag \<open>2.7.0\<close>;
  Docker Hub cannot be reached and the store holds the images \<open>2.7.0\<close> and \<open>2.8.0\<close>.
  The override of lines 1353-1359 is applied first, and the fallback loop of lines
  1401-1417 then assigns the newest local tag over it: the run uses \<open>2.8.0\<close>.
\<close>

theorem override_lost_when_docker_hub_unreachable:
  "chosen_tags
     (resolve_tags [] False
        [\<lparr>RepoTags = [''senzing/senzing-api-server:2.7.0'']\<rparr>,
         \<lparr>RepoTags = [''senzing/senzing-api-server:2.8.0'']\<rparr>]
        (\<lambda>name. if name = ''senzing/senzing-api-server''
                then [\<lparr>RepoTags = [''senzing/senzing-api-server:2.7.0'']\<rparr>,
                      \<lparr>RepoTags = [''senzing/senzing-api-server:2.8.0'']\<rparr>]
                else [])
        (\<lambda>img. True) (\<lambda>img. False)
        \<lparr>apiTag = Some ''2.7.0'', webAppTag = None, swaggerTag = None,
         noWebApp = False, noSwagger = False, forcePull = False\<rparr>
        (initial_docker_containers ''demo''))
   = Inr [Some ''2.8.0'', Some ''latest'', Some ''latest'']"
  by (simp add: tag_eval_defs)



text \<open>The second example: \<open>latest\<close> alone gives \<open>latest\<close>.\<close>

theorem local_fallback_latest_only:
  "chosen_tags
     (resolve_tags [] False
        [\<lparr>RepoTags = [''senzing/senzing-api-server:latest'']\<rparr>]
        (\<lambda>name. if name = ''senzing/senzing-api-server''
                then [\<lparr>RepoTags = [''senzing/senzing-api-server:latest'']\<rparr>]
                else [])
        (\<lambda>img. False) (\<lambda>img. False)
        \<lparr>apiTag = None, webAppTag = None, swaggerTag = None,
         noWebApp = False, noSwagger = False, forcePull = False\<rparr>
        (initial_docker_containers ''demo''))
   = Inr [Some ''latest'', Some ''latest'', Some ''latest'']"
  by (simp add: tag_eval_defs)

section \<open>A container that never becomes healthy\<close>

lemma running_loop:
  "\<exists>i<n. view_status (obs (t + 2 * i)) = ''running'' \<Longrightarrow>
   \<exists>t'. status_wait_loop obs ''running'' n t = Inr (Some ''running'', t')"
proof (induction n arbitrary: t)
  case 0
  then show ?case by simp
next
  case (Suc n)
  show ?case
  proof (cases "view_status (obs t) = ''running''")
    case True
    then show ?thesis by simp
  next
    case False
    from Suc.prems obtain i where i: "i < Suc n" "view_status (obs (t + 2 * i)) = ''running''" by blast
    with False have "i \<noteq> 0" by (cases i) auto
    then obtain j where j: "i = Suc j" by (cases i) auto
    then have "\<exists>i<n. view_status (obs ((t + 2) + 2 * i)) = ''running''"
      using i by (intro exI [of _ j]) simp
    then show ?thesis using Suc.IH [of "t + 2"] False by simp
  qed
qed

lemma unhealthy_loop:
  "\<forall>t. \<exists>h. view_health (obs t) = Some h \<and> h \<noteq> ''healthy'' \<Longrightarrow>
   status_wait_loop obs ''healthy'' n t = Inr (None, t + 2 * n)"
proof (induction n arbitrary: t)
  case 0
  then show ?case by simp
next
  case (Suc n)
  from Suc.prems obtain h where h: "view_health (obs (Suc t)) = Some h" "h \<noteq> ''healthy''" by blast
  show ?case using h Suc.IH [OF Suc.prems, of "t + 2"] by simp
qed

lemma status_wait_running:
  assumes "\<exists>i<n. view_status (obs (t + 2 * i)) = ''running''"
  shows "\<exists>t'. status_wait obs ''running'' n t = Inr (''running'', t')"
proof -
  obtain t' where "status_wait_loop obs ''running'' n t = Inr (Some ''running'', t')"
    using running_loop [OF assms] by blast
  then show ?thesis by (simp add: status_wait_def)
qed

lemma status_wait_unhealthy:
  assumes "\<forall>t. \<exists>h. view_health (obs t) = Some h \<and> h \<noteq> ''healthy''"
  shows "\<exists>h t'. status_wait obs ''healthy'' n t = Inr (h, t') \<and> h \<noteq> ''healthy''"
proof -
  have w: "status_wait_loop obs ''healthy'' n t = Inr (None, t + 2 * n)"
    using assms by (rule unhealthy_loop)
  obtain h where h: "view_health (obs (Suc (t + 2 * n))) = Some h" "h \<noteq> ''healthy''"
    using assms by blast
  show ?thesis using w h by (simp add: status_wait_def)
qed

text \<open>
  Claim C1, as the code has it.  For any service, required or optional: when the
  container start call succeeds, the container is seen running at one of the twenty
  polls, the health it reports is never \<open>healthy\<close>, and its log decodes, \<^verbatim>\<open>docker_run\<close>
  does not exit.  It prints the warning, then the container's log between the two
  banners, and returns with the service's \<^verbatim>\<open>startedok\<close> set to true.
\<close>

theorem unhealthy_container_only_warns:
  assumes run: "run_ok"
    and running: "\<exists>i<20. view_status (obs (2 * i)) = ''running''"
    and unhealthy: "\<forall>t. \<exists>h. view_health (obs t) = Some h \<and> h \<noteq> ''healthy''"
  shows "docker_run run_ok obs (Some text) dc False container_key name
         = Inr (dc(container_key := (dc container_key)\<lparr>startedok := Some True\<rparr>),
                [unhealthy_warning name, ''********** Start Docker Logs **********'', text,
                 ''********** End Docker Logs **********''])"
proof -
  obtain t where s1: "status_wait obs ''running'' 20 0 = Inr (''running'', t)"
    using status_wait_running [of 20 obs 0] running by auto
  obtain h0 where h0: "view_health (obs t) = Some h0" using unhealthy by blast
  obtain h t' where s2: "status_wait obs ''healthy'' 20 (Suc t) = Inr (h, t')" and h: "h \<noteq> ''healthy''"
    using status_wait_unhealthy [OF unhealthy] by blast
  show ?thesis
    using run s1 h0 s2 h by (simp add: docker_run_def docker_logs_def)
qed

text \<open>
  A container that is running and whose health stays \<open>starting\<close>, as the Swagger UI
  service: the call returns, the flag is set, the warning and the log are printed.
\<close>

theorem unhealthy_container_only_warns_witness:
  "docker_run True (\<lambda>t. \<lparr>view_status = ''running'', view_health = Some ''starting''\<rparr>)
     (Some ''nginx: starting'') (initial_docker_containers ''demo'') False swagger ''SzGo-Swagger-demo''
   = Inr ((initial_docker_containers ''demo'')
            (swagger := (initial_docker_containers ''demo'' swagger)\<lparr>startedok := Some True\<rparr>),
          [unhealthy_warning ''SzGo-Swagger-demo'', ''********** Start Docker Logs **********'',
           ''nginx: starting'', ''********** End Docker Logs **********''])"
proof -
  let ?obs = "\<lambda>t::nat. \<lparr>view_status = ''running'', view_health = Some ''starting''\<rparr>"
  have running: "\<exists>i<20. view_status (?obs (2 * i)) = ''running''"
    by (intro exI [of _ 0]) simp
  have unhealthy: "\<forall>t. \<exists>h. view_health (?obs t) = Some h \<and> h \<noteq> ''healthy''"
    by simp
  show ?thesis
    using unhealthy_container_only_warns [OF TrueI running unhealthy] .
qed

text \<open>
  Claim C1 as stated fails on both halves.  With the same observations the required
  REST API service does not abort the run (the call returns), and the optional web app
  is not left unstarted: its \<^verbatim>\<open>startedok\<close> flag is true.
\<close>

theorem unhealthy_required_service_counterexample:
  "started_flags (docker_run True (\<lambda>t. \<lparr>view_status = ''running'', view_health = Some ''starting''\<rparr>)
     (Some ''Starting server'') (initial_docker_containers ''demo'') False restapi ''SzGo-API-demo'')
   = Inr ([Some True, None, None],
          [unhealthy_warning ''SzGo-API-demo'', ''********** Start Docker Logs **********'',
           ''Starting server'', ''********** End Docker Logs **********''])
   \<and> started_flags (docker_run True (\<lambda>t. \<lparr>view_status = ''running'', view_health = Some ''starting''\<rparr>)
     (Some ''Starting server'') (initial_docker_containers ''demo'') False webapp ''SzGo-WEB-demo'')
   = Inr ([None, Some True, None],
          [unhealthy_warning ''SzGo-WEB-demo'', ''********** Start Docker Logs **********'',
           ''Starting server'', ''********** End Docker Logs **********''])"
proof -
  let ?obs = "\<lambda>t::nat. \<lparr>view_status = ''running'', view_health = Some ''starting''\<rparr>"
  have "\<exists>i<20. view_status (?obs (0 + 2 * i)) = ''running''"
    by (intro exI [of _ 0]) simp
  then obtain t where s1: "status_wait ?obs ''running'' 20 0 = Inr (''running'', t)"
    using status_wait_running [of 20 ?obs 0] by blast
  have "\<forall>t. \<exists>h. view_health (?obs t) = Some h \<and> h \<noteq> ''healthy''" by simp
  then obtain h t' where s2: "status_wait ?obs ''healthy'' 20 (Suc t) = Inr (h, t')" and h: "h \<noteq> ''healthy''"
    using status_wait_unhealthy [of ?obs 20 "Suc t"] by blast
  show ?thesis
    using s1 s2 h
    by (simp add: started_flags_def docker_run_def docker_logs_def initial_docker_containers_def service_keys_def)
qed

text \<open>
  When the log bytes do not decode, the dump raises and nothing catches it: the same
  container then ends the run with \<^verbatim>\<open>UnicodeDecodeError\<close>, whatever the service.
\<close>

lemma unhealthy_container_undecodable_log:
  assumes run: "run_ok"
    and running: "\<exists>i<20. view_status (obs (2 * i)) = ''running''"
    and unhealthy: "\<forall>t. \<exists>h. view_health (obs t) = Some h \<and> h \<noteq> ''healthy''"
  shows "docker_run run_ok obs None dc False container_key name = Inl (Uncaught UnicodeDecodeError)"
proof -
  obtain t where s1: "status_wait obs ''running'' 20 0 = Inr (''running'', t)"
    using status_wait_running [of 20 obs 0] running by auto
  obtain h0 where h0: "view_health (obs t) = Some h0" using unhealthy by blast
  obtain h t' where s2: "status_wait obs ''healthy'' 20 (Suc t) = Inr (h, t')" and h: "h \<noteq> ''healthy''"
    using status_wait_unhealthy [OF unhealthy] by blast
  show ?thesis
    using run s1 h0 s2 h by (simp add: docker_run_def docker_logs_def)
qed

section \<open>Image bundles\<close>

lemma map_of_filter_fst:
  "map_of (filter (\<lambda>e. fst e \<noteq> p) fs) q = (if q = p then None else map_of fs q)"
  by (induction fs) auto

lemma fs_lookup_put:
  "fs_lookup (fs_put fs p n) q = (if q = p then Some n else fs_lookup fs q)"
  by (simp add: fs_lookup_def fs_put_def fs_delete_def map_of_filter_fst)

text \<open>
  Whenever an import returns, the scratch directory is still there: the final
  \<^verbatim>\<open>os.remove\<close> is given a directory, raises, and the exception is suppressed.
\<close>

lemma load_images_keeps_scratch_directory:
  assumes "load_images timestamp var_path load_file_path fs store = Inr (fs', store')"
  shows "fs_lookup fs' (var_path @ ''/SzGo_Extract_'' @ timestamp) = Some Dir"
proof -
  let ?ep = "var_path @ ''/SzGo_Extract_'' @ timestamp"
  obtain members fs1 entries store1 where
      sc: "scandir fs1 ?ep = Inr entries"
    and rm: "(case os_remove fs1 ?ep of Inl e \<Rightarrow> Inr (fs1, store1) | Inr fs2 \<Rightarrow> Inr (fs2, store1))
               = (Inr (fs', store') :: failure + (filesystem \<times> string list))"
    using assms
    by (auto simp: load_images_def Let_def split: option.splits node.splits content.splits sum.splits)
  have d: "fs_lookup fs1 ?ep = Some Dir"
    using sc by (auto simp: scandir_def split: option.splits node.splits)
  then have "os_remove fs1 ?ep = Inl IsADirectoryError" by (simp add: os_remove_def)
  then have "fs' = fs1" using rm by simp
  then show ?thesis using d by simp
qed

text \<open>
  Claim C9 at a concrete import: a bundle with one image is loaded from \<open>/tmp\<close>.  The
  image reaches the store, and the scratch directory
  \<open>/tmp/SzGo_Extract_20240102_090000\<close> with the extracted file in it is still on disk
  afterwards.
\<close>

theorem scratch_directory_survives_import:
  "load_images ''20240102_090000'' ''/tmp'' ''/tmp/SzGoImages_20240101_120000.tgz''
     [(''/tmp/SzGoImages_20240101_120000.tgz'',
       File (Archive [(''SzGoPackage-senzing-senzing-api-server-3.0.0.tar'',
                       ImageTar ''senzing/senzing-api-server:3.0.0'')])),
      (''/tmp'', Dir)]
     []
   = Inr ([(''/tmp/SzGo_Extract_20240102_090000/SzGoPackage-senzing-senzing-api-server-3.0.0.tar'',
            File (ImageTar ''senzing/senzing-api-server:3.0.0'')),
           (''/tmp/SzGo_Extract_20240102_090000'', Dir),
           (''/tmp/SzGoImages_20240101_120000.tgz'',
            File (Archive [(''SzGoPackage-senzing-senzing-api-server-3.0.0.tar'',
                            ImageTar ''senzing/senzing-api-server:3.0.0'')])),
           (''/tmp'', Dir)],
          [''senzing/senzing-api-server:3.0.0''])"
  by (simp add: load_images_def fs_lookup_def fs_put_def fs_delete_def scandir_def dirname_def
        os_remove_def Let_def)

text \<open>
  Claim C8 at a concrete export and import.  The image list names two images that are
  present locally, \<open>senzing/web-app:demo\<close> and \<open>senzing/web:app-demo\<close>.  With \<open>/\<close> and
  \<open>:\<close> replaced by \<open>-\<close> both get the intermediate file
  \<open>/tmp/SzGoPackage-senzing-web-app-demo.tar\<close>: the second export overwrites the
  first, the archive loop adds and removes the file for the first entry and finds it
  gone for the second.  The export ends with status 1 and leaves a bundle that holds
  the second image only; importing that bundle into an empty store brings back
  \<open>senzing/web:app-demo\<close> and not \<open>senzing/web-app:demo\<close>.
\<close>

theorem colliding_file_names_lose_an_image:
  "save_images (\<lambda>img. True) (\<lambda>img. True) (\<lambda>img. True) [] ''20240101_120000''
     (initial_docker_containers ''demo'')
     [''senzing/web-app:demo'', ''senzing/web:app-demo'']
     ''/tmp'' False False False False
     [(''/tmp'', Dir)]
   = ([(''/tmp/SzGoImages_20240101_120000.tgz'',
        File (Archive [(''SzGoPackage-senzing-web-app-demo.tar'', ImageTar ''senzing/web:app-demo'')])),
       (''/tmp'', Dir)],
      Inl (Exit 1 [''ERROR: No such file or directory: /tmp/SzGoPackage-senzing-web-app-demo.tar'']))
   \<and> load_images ''20240102_090000'' ''/tmp'' ''/tmp/SzGoImages_20240101_120000.tgz''
       [(''/tmp/SzGoImages_20240101_120000.tgz'',
         File (Archive [(''SzGoPackage-senzing-web-app-demo.tar'', ImageTar ''senzing/web:app-demo'')])),
        (''/tmp'', Dir)]
       []
     = Inr ([(''/tmp/SzGo_Extract_20240102_090000/SzGoPackage-senzing-web-app-demo.tar'',
              File (ImageTar ''senzing/web:app-demo'')),
             (''/tmp/SzGo_Extract_20240102_090000'', Dir),
             (''/tmp/SzGoImages_20240101_120000.tgz'',
              File (Archive [(''SzGoPackage-senzing-web-app-demo.tar'', ImageTar ''senzing/web:app-demo'')])),
             (''/tmp'', Dir)],
            [''senzing/web:app-demo''])
   \<and> ''senzing/web-app:demo'' \<notin> set [''senzing/web:app-demo'']"
  by (simp add: save_images_def package_file_name_def replace_char_def write_file_def
        load_images_def scandir_def dirname_def
        fs_lookup_def fs_put_def fs_delete_def os_remove_def basename_def Let_def)

text \<open>
  Naming the same image twice ends the export with status 1 as well, although nothing
  is lost then: the bundle left on disk holds the image and no intermediate file
  remains.
\<close>

lemma duplicate_image_export_exits:
  "save_images (\<lambda>img. True) (\<lambda>img. True) (\<lambda>img. True) [] ''20240101_120000''
     (initial_docker_containers ''demo'')
     [''senzing/senzing-api-server:3.0.0'', ''senzing/senzing-api-server:3.0.0'']
     ''/tmp'' False False False False
     [(''/tmp'', Dir)]
   = ([(''/tmp/SzGoImages_20240101_120000.tgz'',
        File (Archive [(''SzGoPackage-senzing-senzing-api-server-3.0.0.tar'',
                        ImageTar ''senzing/senzing-api-server:3.0.0'')])),
       (''/tmp'', Dir)],
      Inl (Exit 1 [''ERROR: No such file or directory: /tmp/SzGoPackage-senzing-senzing-api-server-3.0.0.tar'']))"
  by (simp add: save_images_def package_file_name_def replace_char_def write_file_def
        fs_lookup_def fs_put_def fs_delete_def os_remove_def basename_def Let_def)

section \<open>Configuration translation\<close>

lemma map_of_dict_set:
  "map_of (dict_set d k v) k' = (if k' = k then Some v else map_of d k')"
  by (induction d) auto

lemma split_at_colon:
  assumes "CHR '':'' \<notin> set a"
  shows "type_connection_split (a @ CHR '':'' # r) = Inr (a, r)"
proof -
  have "takeWhile (\<lambda>c. c \<noteq> CHR '':'') (a @ CHR '':'' # r) = a"
    using assms by (induction a) auto
  moreover have "dropWhile (\<lambda>c. c \<noteq> CHR '':'') (a @ CHR '':'' # r) = CHR '':'' # r"
    using assms by (induction a) auto
  ultimately show ?thesis by (simp add: type_connection_split_def)
qed

lemma fix_pipeline_returns:
  assumes p: "map_of ini_json ''PIPELINE'' = Some pipeline"
    and r: "map_of pipeline ''resourcepath'' = Some rp"
  obtains ini1 pipeline1 where "fix_pipeline ini_json = Inr ini1"
    and "\<And>s. s \<noteq> ''PIPELINE'' \<Longrightarrow> map_of ini1 s = map_of ini_json s"
    and "map_of ini1 ''PIPELINE'' = Some pipeline1"
    and "map_of pipeline1 ''db_1'' = map_of pipeline ''db_1''"
proof -
  let ?p1 = "dict_set (dict_set pipeline ''supportpath'' ''/opt/senzing/data'') ''configpath'' ''/etc/opt/senzing''"
  let ?p2 = "filter (\<lambda>e. fst e \<noteq> ''resourcepath'') ?p1"
  have rp: "map_of ?p1 ''resourcepath'' = Some rp" using r by (simp add: map_of_dict_set)
  have 1: "fix_pipeline ini_json = Inr (dict_set ini_json ''PIPELINE'' ?p2)"
    using p rp by (simp add: fix_pipeline_def Let_def)
  have 2: "\<And>s. s \<noteq> ''PIPELINE'' \<Longrightarrow> map_of (dict_set ini_json ''PIPELINE'' ?p2) s = map_of ini_json s"
    by (simp add: map_of_dict_set)
  have 3: "map_of (dict_set ini_json ''PIPELINE'' ?p2) ''PIPELINE'' = Some ?p2"
    by (simp add: map_of_dict_set)
  have 4: "map_of ?p2 ''db_1'' = map_of pipeline ''db_1''"
    by (simp add: map_of_filter_fst map_of_dict_set)
  show ?thesis using that [OF 1 2 3 4] .
qed

lemma patch_prefix:
  assumes p: "map_of ini_json ''PIPELINE'' = Some pipeline"
    and r: "map_of pipeline ''resourcepath'' = Some rp"
    and s: "map_of ini_json ''SQL'' = Some sql"
    and c: "map_of sql ''connection'' = Some base_conn_str"
  obtains ini1 where "fix_pipeline ini_json = Inr ini1"
    and "patch_ini_json resolve_parent ini_json =
          (case type_connection_split base_conn_str of
             Inl f \<Rightarrow> Inl f
           | Inr (dbtype, connection) \<Rightarrow>
               if lower dbtype = ''sqlite3''
               then (case host_path_for_volume resolve_parent ini1 sql base_conn_str of
                       Inl f \<Rightarrow> Inl f
                     | Inr host \<Rightarrow>
                         (case json_loads (replace_str host ''/var/opt/senzing''
                                             (json_dumps (ini_to_json ini1))) of
                            Inl f \<Rightarrow> Inl f
                          | Inr ini_json_patched \<Rightarrow>
                              Inr (dbtype, ini_json_patched,
                                   Some (host, ''/var/opt/senzing'', ''rw''))))
               else Inr (dbtype, ini_to_json ini1, None))"
    and "\<And>s. s \<noteq> ''PIPELINE'' \<Longrightarrow> map_of ini1 s = map_of ini_json s"
    and "\<exists>pipeline1. map_of ini1 ''PIPELINE'' = Some pipeline1
           \<and> map_of pipeline1 ''db_1'' = map_of pipeline ''db_1''"
proof -
  obtain ini1 pipeline1 where f: "fix_pipeline ini_json = Inr ini1"
    and o: "\<And>s. s \<noteq> ''PIPELINE'' \<Longrightarrow> map_of ini1 s = map_of ini_json s"
    and p1: "map_of ini1 ''PIPELINE'' = Some pipeline1"
    and d1: "map_of pipeline1 ''db_1'' = map_of pipeline ''db_1''"
    using fix_pipeline_returns [OF p r] by blast
  have "map_of ini1 ''SQL'' = Some sql" using o [of "''SQL''"] s by simp
  then have "patch_ini_json resolve_parent ini_json =
          (case type_connection_split base_conn_str of
             Inl f \<Rightarrow> Inl f
           | Inr (dbtype, connection) \<Rightarrow>
               if lower dbtype = ''sqlite3''
               then (case host_path_for_volume resolve_parent ini1 sql base_conn_str of
                       Inl f \<Rightarrow> Inl f
                     | Inr host \<Rightarrow>
                         (case json_loads (replace_str host ''/var/opt/senzing''
                                             (json_dumps (ini_to_json ini1))) of
                            Inl f \<Rightarrow> Inl f
                          | Inr ini_json_patched \<Rightarrow>
                              Inr (dbtype, ini_json_patched,
                                   Some (host, ''/var/opt/senzing'', ''rw''))))
               else Inr (dbtype, ini_to_json ini1, None))"
    using f c by (simp add: patch_ini_json_def dict_get_def)
  then show ?thesis using that f o p1 d1 by blast
qed

text \<open>
  Claim C7, as the code has it.  For a configuration with the \<^verbatim>\<open>PIPELINE\<close> section, its
  \<^verbatim>\<open>resourcepath\<close>, and the connection string in \<^verbatim>\<open>SQL\<close>: a connection string without
  the colon makes the translation print the diagnostic and exit with status 1.  The
  \<^verbatim>\<open>@\<close> is looked for in sqlite3 connection strings only: a connection string with the
  colon whose type is not \<open>sqlite3\<close> is translated without error, whether it has an
  \<^verbatim>\<open>@\<close> or not.
\<close>

theorem connection_string_without_colon_is_fatal:
  assumes p: "map_of ini_json ''PIPELINE'' = Some pipeline"
    and r: "map_of pipeline ''resourcepath'' = Some rp"
    and s: "map_of ini_json ''SQL'' = Some sql"
    and c: "map_of sql ''connection'' = Some base_conn_str"
  shows "(CHR '':'' \<notin> set base_conn_str \<longrightarrow>
            patch_ini_json resolve_parent ini_json
              = Inl (Exit 1 [''ERROR: Couldn't parse connection string and find the database type:'',
                             ''       '' @ base_conn_str @ [CHR 0x27]]))
       \<and> (\<forall>db_type rest.
             base_conn_str = db_type @ CHR '':'' # rest \<longrightarrow> CHR '':'' \<notin> set db_type
               \<longrightarrow> lower db_type \<noteq> ''sqlite3'' \<longrightarrow>
             (\<exists>cfg. patch_ini_json resolve_parent ini_json = Inr (db_type, cfg, None)))"
proof -
  obtain ini1 where eq: "patch_ini_json resolve_parent ini_json =
          (case type_connection_split base_conn_str of
             Inl f \<Rightarrow> Inl f
           | Inr (dbtype, connection) \<Rightarrow>
               if lower dbtype = ''sqlite3''
               then (case host_path_for_volume resolve_parent ini1 sql base_conn_str of
                       Inl f \<Rightarrow> Inl f
                     | Inr host \<Rightarrow>
                         (case json_loads (replace_str host ''/var/opt/senzing''
                                             (json_dumps (ini_to_json ini1))) of
                            Inl f \<Rightarrow> Inl f
                          | Inr ini_json_patched \<Rightarrow>
                              Inr (dbtype, ini_json_patched,
                                   Some (host, ''/var/opt/senzing'', ''rw''))))
               else Inr (dbtype, ini_to_json ini1, None))"
    using patch_prefix [OF p r s c] by blast
  have 1: "CHR '':'' \<notin> set base_conn_str \<longrightarrow>
            patch_ini_json resolve_parent ini_json
              = Inl (Exit 1 [''ERROR: Couldn't parse connection string and find the database type:'',
                             ''       '' @ base_conn_str @ [CHR 0x27]])"
    unfolding eq by (simp add: type_connection_split_def)
  have 2: "\<forall>db_type rest.
             base_conn_str = db_type @ CHR '':'' # rest \<longrightarrow> CHR '':'' \<notin> set db_type
               \<longrightarrow> lower db_type \<noteq> ''sqlite3'' \<longrightarrow>
             (\<exists>cfg. patch_ini_json resolve_parent ini_json = Inr (db_type, cfg, None))"
    unfolding eq by (auto simp: split_at_colon)
  show ?thesis using 1 2 by blast
qed

text \<open>
  Two configurations: one whose connection string has no colon, and a MySQL one.
\<close>

theorem connection_string_without_colon_is_fatal_witness:
  "patch_ini_json dirname
     [(''PIPELINE'', [(''supportpath'', ''/home/ann/proj/data''),
                      (''configpath'', ''/home/ann/proj/etc''),
                      (''resourcepath'', ''/home/ann/proj/resources'')]),
      (''SQL'', [(''connection'', ''sqlite3//na@/home/ann/proj/var/sqlite/G2C.db'')])]
   = Inl (Exit 1 [''ERROR: Couldn't parse connection string and find the database type:'',
                  ''       '' @ ''sqlite3//na@/home/ann/proj/var/sqlite/G2C.db'' @ [CHR 0x27]])
   \<and> (\<exists>cfg. patch_ini_json dirname
        [(''PIPELINE'', [(''supportpath'', ''/home/ann/proj/data''),
                         (''configpath'', ''/home/ann/proj/etc''),
                         (''resourcepath'', ''/home/ann/proj/resources'')]),
         (''SQL'', [(''connection'', ''mysql'' @ CHR '':'' # ''//dbhost/G2'')])]
      = Inr (''mysql'', cfg, None))"
proof -
  let ?pip = "[(''supportpath'', ''/home/ann/proj/data''),
               (''configpath'', ''/home/ann/proj/etc''),
               (''resourcepath'', ''/home/ann/proj/resources'')]"
  let ?bad = "''sqlite3//na@/home/ann/proj/var/sqlite/G2C.db''"
  let ?good = "''mysql'' @ CHR '':'' # ''//dbhost/G2''"
  have p: "\<And>sql. map_of [(''PIPELINE'', ?pip), (''SQL'', sql)] ''PIPELINE'' = Some ?pip" by simp
  have r: "map_of ?pip ''resourcepath'' = Some ''/home/ann/proj/resources''" by simp
  have s: "\<And>sql. map_of [(''PIPELINE'', ?pip), (''SQL'', sql)] ''SQL'' = Some sql" by simp
  have c: "\<And>b. map_of [(''connection'', b)] ''connection'' = Some b" by simp
  have nocolon: "CHR '':'' \<notin> set ?bad" by simp
  have low: "lower ''mysql'' \<noteq> ''sqlite3''" by (simp add: lower_def)
  have nc: "CHR '':'' \<notin> set ''mysql''" by simp
  have 1: "patch_ini_json dirname [(''PIPELINE'', ?pip), (''SQL'', [(''connection'', ?bad)])]
          = Inl (Exit 1 [''ERROR: Couldn't parse connection string and find the database type:'',
                         ''       '' @ ?bad @ [CHR 0x27]])"
    using connection_string_without_colon_is_fatal [OF p r s c, THEN conjunct1, rule_format, OF nocolon] .
  have 2: "\<exists>cfg. patch_ini_json dirname
        [(''PIPELINE'', ?pip), (''SQL'', [(''connection'', ?good)])] = Inr (''mysql'', cfg, None)"
    using connection_string_without_colon_is_fatal [OF p r s c, THEN conjunct2, rule_format, OF refl nc low] .
  show ?thesis using 1 2 by (rule conjI)
qed

text \<open>
  Claim C7 as stated fails for the \<^verbatim>\<open>@\<close>: this connection string has none, and the
  translation returns the configuration.
\<close>

theorem connection_string_without_at_counterexample:
  "patch_ini_json dirname
     [(''PIPELINE'', [(''supportpath'', ''/home/ann/proj/data''),
                      (''configpath'', ''/home/ann/proj/etc''),
                      (''resourcepath'', ''/home/ann/proj/resources'')]),
      (''SQL'', [(''connection'', ''postgresql://dbhost:5432:G2'')])]
   = Inr (''postgresql'',
          JObject [(''PIPELINE'', JObject [(''supportpath'', JString ''/opt/senzing/data''),
                                           (''configpath'', JString ''/etc/opt/senzing'')]),
                   (''SQL'', JObject [(''connection'', JString ''postgresql://dbhost:5432:G2'')])],
          None)
   \<and> CHR ''@'' \<notin> set ''postgresql://dbhost:5432:G2''"
  by (simp add: patch_ini_json_def fix_pipeline_def dict_get_def type_connection_split_def
        lower_def lower_char_def ini_to_json_def Let_def)

section \<open>Backend types\<close>





end
